theory Spec2Isabelle
  imports Complex_Main "HOL-Library.AList"
begin

section \<open>JavaScript numbers\<close>

text \<open>
  Prices and the quantities computed from them are JavaScript numbers. The model computes on
  the rationals: the rounding of IEEE-754 doubles is not represented, so the price and the
  divergence that \<^verbatim>\<open>crossVerify\<close> computes from two quotes are the exact values here, which
  the doubles of the program approximate (for 20300500040297 against 19699500039104 the exact
  divergence lies just below 300.5 basis points and rounds to 300; in doubles the quotient
  comes out as 300.5, which rounds to 301). What is kept is every branch the arithmetic can take on finite
  operands: a division by zero yields \<^verbatim>\<open>Infinity\<close>, \<^verbatim>\<open>-Infinity\<close> or \<^verbatim>\<open>NaN\<close>, and these
  values are sticky under \<^verbatim>\<open>Math.round\<close> and make every comparison with \<^verbatim>\<open>NaN\<close> false.
\<close>

datatype 'a jsnum = Fin 'a | PosInf | NegInf | NaN

definition js_div :: "rat \<Rightarrow> rat \<Rightarrow> rat jsnum" where
  "js_div x y =
     (if y \<noteq> 0 then Fin (x / y)
      else if x = 0 then NaN
      else if 0 < x then PosInf
      else NegInf)"

definition js_times :: "rat jsnum \<Rightarrow> rat \<Rightarrow> rat jsnum" where
  "js_times x k =
     (case x of
        Fin v \<Rightarrow> Fin (v * k)
      | PosInf \<Rightarrow> (if k = 0 then NaN else if 0 < k then PosInf else NegInf)
      | NegInf \<Rightarrow> (if k = 0 then NaN else if 0 < k then NegInf else PosInf)
      | NaN \<Rightarrow> NaN)"

text \<open>\<^verbatim>\<open>Math.round\<close> rounds to the nearest integer, a tie going up; so does \<^const>\<open>round\<close>.\<close>

definition Math_round :: "rat jsnum \<Rightarrow> int jsnum" where
  "Math_round x =
     (case x of Fin v \<Rightarrow> Fin (round v) | PosInf \<Rightarrow> PosInf | NegInf \<Rightarrow> NegInf | NaN \<Rightarrow> NaN)"

definition js_le :: "int jsnum \<Rightarrow> int \<Rightarrow> bool" where
  "js_le x k = (case x of Fin v \<Rightarrow> v \<le> k | PosInf \<Rightarrow> False | NegInf \<Rightarrow> True | NaN \<Rightarrow> False)"

definition js_gt :: "int jsnum \<Rightarrow> int \<Rightarrow> bool" where
  "js_gt x k = (case x of Fin v \<Rightarrow> k < v | PosInf \<Rightarrow> True | NegInf \<Rightarrow> False | NaN \<Rightarrow> False)"

definition js_ge :: "int \<Rightarrow> int jsnum \<Rightarrow> bool" where
  "js_ge n x = (case x of Fin v \<Rightarrow> v \<le> n | PosInf \<Rightarrow> False | NegInf \<Rightarrow> True | NaN \<Rightarrow> False)"

text \<open>
  The string of an integer, as a template literal and \<^verbatim>\<open>JSON.stringify\<close> produce it: decimal
  digits with a leading minus sign. (JavaScript switches to exponent notation from \<open>10\<^sup>2\<^sup>1\<close>
  on; no value of that size arises from positive prices or from a clock.)
\<close>

function digits :: "int \<Rightarrow> string" where
  "digits n =
     (if n < 10 then [''0123456789'' ! nat n]
      else digits (n div 10) @ [''0123456789'' ! nat (n mod 10)])"
  by pat_completeness auto
termination
  by (relation "measure nat") auto

definition int_string :: "int \<Rightarrow> string" where
  "int_string i = (if i < 0 then CHR ''-'' # digits (- i) else digits i)"

definition js_String :: "int jsnum \<Rightarrow> string" where
  "js_String x =
     (case x of
        Fin v \<Rightarrow> int_string v
      | PosInf \<Rightarrow> ''Infinity''
      | NegInf \<Rightarrow> ''-Infinity''
      | NaN \<Rightarrow> ''NaN'')"

section \<open>The cross-verification engine (sources.js)\<close>

text \<open>
  A quote is the object an adapter stores under a ticker. \<open>None\<close> in an optional field stands
  for a property that is \<^verbatim>\<open>undefined\<close>, \<^verbatim>\<open>null\<close> or not there at all. The adapters' result
  objects are read by key only, so they are maps; a ticker without a quote is \<open>None\<close>
  (\<^verbatim>\<open>undefined\<close>, which \<^verbatim>\<open>!cg\<close> tests). Tickers are upper-case symbols, none of them the name of
  a property that every object inherits.
\<close>

record cg_quote =
  cg_price :: rat
  cg_change24h :: "rat option"
  cg_marketCap :: "rat option"
  cg_source :: string

record dl_quote =
  dl_price :: rat
  dl_confidence :: rat
  dl_source :: string

text \<open>
  The record \<^verbatim>\<open>crossVerify\<close> returns. The last four fields are the properties the request
  handlers of the server attach to it later.
\<close>

datatype iso8601 = ISO int

record verified =
  price :: rat
  prices :: "(rat \<times> rat) option"
  sources :: nat
  sourceNames :: "string list"
  confidence :: nat
  divergenceBps :: "int jsnum"
  change24h :: "rat option"
  marketCap :: "rat option"
  warning :: "string option"
  dataHash :: "string option"
  asset :: "string option"
  timestamp :: "int option"
  iso :: "iso8601 option"

definition single_source :: "rat \<Rightarrow> string \<Rightarrow> verified" where
  "single_source p name =
     \<lparr> price = p, prices = None, sources = 1, sourceNames = [name], confidence = 60,
       divergenceBps = Fin 0, change24h = None, marketCap = None, warning = None,
       dataHash = None, asset = None, timestamp = None, iso = None \<rparr>"

definition crossVerify ::
  "(string \<rightharpoonup> cg_quote) \<Rightarrow> (string \<rightharpoonup> dl_quote) \<Rightarrow> string \<Rightarrow> verified option" where
  "crossVerify coinGecko deFiLlama a =
     (case (coinGecko a, deFiLlama a) of
        (None, None) \<Rightarrow> None
      | (None, Some dl) \<Rightarrow> Some (single_source (dl_price dl) ''defillama'')
      | (Some cg, None) \<Rightarrow> Some (single_source (cg_price cg) ''coingecko'')
      | (Some cg, Some dl) \<Rightarrow>
          (let avg = (cg_price cg + dl_price dl) / 2;
               diff = \<bar>cg_price cg - dl_price dl\<bar>;
               bps = Math_round (js_times (js_div diff avg) 10000);
               conf = (if js_le bps 10 then 99
                       else if js_le bps 50 then 95
                       else if js_le bps 100 then 85
                       else if js_le bps 300 then 70
                       else 40)
           in Some \<lparr> price = avg,
                     prices = Some (cg_price cg, dl_price dl),
                     sources = 2,
                     sourceNames = [''coingecko'', ''defillama''],
                     confidence = conf,
                     divergenceBps = bps,
                     change24h = cg_change24h cg,
                     marketCap = cg_marketCap cg,
                     warning = (if js_gt bps 300
                                then Some (''HIGH DIVERGENCE: '' @ js_String bps @ ''bps between sources'')
                                else None),
                     dataHash = None, asset = None, timestamp = None, iso = None \<rparr>))"

text \<open>The lookup table of the specification (section 4.2), written from its words.\<close>

definition spec_confidence :: "int \<Rightarrow> nat" where
  "spec_confidence d =
     (if d \<le> 10 then 99 else if d \<le> 50 then 95 else if d \<le> 100 then 85
      else if d \<le> 300 then 70 else 40)"

section \<open>The provider adapters (sources.js)\<close>

text \<open>
  What happens to an asynchronous call is a value: \<open>Inl e\<close> is a promise rejected with (an
  exception thrown with) \<open>e\<close>, \<open>Inr v\<close> a promise fulfilled with \<open>v\<close>.
\<close>

datatype exn = NetworkError | ParseError | TypeError

text \<open>
  A request to a provider that comes to an end ends in one of three ways: the connection fails
  before a response arrives, a response arrives whose body is not JSON, or a response arrives
  whose body parses. The number is the HTTP status code of the response. \<^verbatim>\<open>fetch\<close> rejects in
  the first two cases and resolves with the parsed body in the third; it never reads the
  status code. (A request that comes to no end is the subject of a section of its own below.)
\<close>

datatype 'b upstream = NoResponse | NotJson nat | Json nat 'b

definition fetch :: "'b upstream \<Rightarrow> exn + 'b" where
  "fetch up =
     (case up of
        NoResponse \<Rightarrow> Inl NetworkError
      | NotJson status \<Rightarrow> Inl ParseError
      | Json status b \<Rightarrow> Inr b)"

text \<open>
  A parsed body is seen through the property reads the adapter makes on it. \<open>Null\<close> is the
  body \<^verbatim>\<open>null\<close>, on which a property read throws a \<^verbatim>\<open>TypeError\<close>; \<open>Value v\<close> is any other
  body, \<open>v\<close> holding what those reads find. Numbers are expected where the providers send
  numbers and strings where they send strings.
\<close>

datatype 'a body = Null | Value 'a

text \<open>
  What a chain of property reads arrives at. \<open>Absent\<close> is \<^verbatim>\<open>undefined\<close> or \<^verbatim>\<open>null\<close>: the next
  read on it throws a \<^verbatim>\<open>TypeError\<close>. \<open>Plain\<close> is a value that has none of the members read
  next (a string, a number, a boolean, an array): each of them reads \<^verbatim>\<open>undefined\<close> and nothing
  is thrown. \<open>Object v\<close> is an object, \<open>v\<close> holding those members, \<open>None\<close> for one that is
  \<^verbatim>\<open>undefined\<close>, \<^verbatim>\<open>null\<close> or not there.
\<close>

datatype 'a member = Absent | Plain | Object 'a

text \<open>\<^verbatim>\<open>x || 0\<close> on an optional number.\<close>

definition or_0 :: "rat option \<Rightarrow> rat" where
  "or_0 x = (case x of None \<Rightarrow> 0 | Some v \<Rightarrow> v)"

text \<open>\<^verbatim>\<open>xs.join(',')\<close>.\<close>

fun join :: "string list \<Rightarrow> string" where
  "join [] = []"
| "join [x] = x"
| "join (x # y # ys) = x @ '','' @ join (y # ys)"

text \<open>
  The result of \<^verbatim>\<open>parseInt\<close> is a number, that is a double: an integer that does not fit the
  53 bits of a significand is rounded to the nearest double, a tie going to the even
  significand, and from \<open>2\<^sup>1\<^sup>0\<^sup>2\<^sup>4\<close> on it is \<^verbatim>\<open>Infinity\<close>. \<open>bit_length n\<close> is the number of
  binary digits of \<open>n\<close>.
\<close>

function bit_length :: "int \<Rightarrow> nat" where
  "bit_length n = (if n \<le> 0 then 0 else Suc (bit_length (n div 2)))"
  by pat_completeness auto
termination
  by (relation "measure nat") auto

definition to_double :: "int \<Rightarrow> int jsnum" where
  "to_double n =
     (let a = \<bar>n\<bar>;
          u = 2 ^ (bit_length a - 53);
          q = a div u;
          r = a mod u;
          m = (if u < 2 * r \<or> (u = 2 * r \<and> odd q) then q + 1 else q) * u
      in if 2 ^ 1024 \<le> m then (if n < 0 then NegInf else PosInf)
         else Fin (if n < 0 then - m else m))"

text \<open>
  \<^verbatim>\<open>parseInt(s)\<close> with no radix: leading white space is skipped, a sign is read, a prefix
  \<^verbatim>\<open>0x\<close> selects base 16, and the longest run of digits is the value; no digit gives
  \<^verbatim>\<open>NaN\<close>. White space is the ASCII part of JavaScript's. The zero that \<^verbatim>\<open>parseInt('-0')\<close>
  returns is \<open>Fin 0\<close> like the other one: no comparison and no printing tells them apart.
\<close>

definition is_space :: "char \<Rightarrow> bool" where
  "is_space c = (of_char c \<in> {9, 10, 11, 12, 13, 32 :: nat})"

definition digit_value :: "char \<Rightarrow> nat" where
  "digit_value c =
     (let n = of_char c :: nat in
      if 48 \<le> n \<and> n \<le> 57 then n - 48
      else if 97 \<le> n \<and> n \<le> 122 then n - 87
      else if 65 \<le> n \<and> n \<le> 90 then n - 55
      else 36)"

definition parseInt :: "string \<Rightarrow> int jsnum" where
  "parseInt s =
     (let s1 = dropWhile is_space s;
          neg = (take 1 s1 = ''-'');
          s2 = (if take 1 s1 = ''-'' \<or> take 1 s1 = ''+'' then drop 1 s1 else s1);
          hex = (take 2 s2 = ''0x'' \<or> take 2 s2 = ''0X'');
          R = (if hex then 16 else 10);
          s3 = (if hex then drop 2 s2 else s2);
          Z = takeWhile (\<lambda>c. int (digit_value c) < R) s3
      in if Z = [] then NaN
         else to_double ((if neg then - 1 else 1) *
                         foldl (\<lambda>acc c. acc * R + int (digit_value c)) 0 Z))"

text \<open>
  \<^verbatim>\<open>parseInt\<close> converts its argument to a string first. The members it is applied to are
  seen as that string, \<open>None\<close> for a member that is \<^verbatim>\<open>undefined\<close>, whose string is
  \<^verbatim>\<open>'undefined'\<close>.
\<close>

definition parseInt_of :: "string option \<Rightarrow> int jsnum" where
  "parseInt_of x = parseInt (case x of None \<Rightarrow> ''undefined'' | Some s \<Rightarrow> s)"

subsection \<open>Source 1: CoinGecko\<close>

definition ids :: "(string \<times> string) list" where
  "ids =
     [(''BTC'', ''bitcoin''), (''ETH'', ''ethereum''), (''SOL'', ''solana''),
      (''BNB'', ''binancecoin''), (''XRP'', ''ripple''), (''ADA'', ''cardano''),
      (''AVAX'', ''avalanche-2''), (''DOGE'', ''dogecoin''), (''DOT'', ''polkadot''),
      (''MATIC'', ''matic-network''), (''LINK'', ''chainlink''), (''UNI'', ''uniswap''),
      (''AAVE'', ''aave''), (''ARB'', ''arbitrum''), (''OP'', ''optimism''),
      (''BASE'', ''base''), (''USDT'', ''tether''), (''USDC'', ''usd-coin'')]"

record cg_entry =
  usd :: rat
  usd_24h_change :: "rat option"
  usd_market_cap :: "rat option"

text \<open>
  The body of the \<^verbatim>\<open>try\<close> block after the \<^verbatim>\<open>await\<close>: the loop over the entries of \<^verbatim>\<open>ids\<close>.
  The first read \<^verbatim>\<open>data[geckoId]\<close> throws when the body is \<^verbatim>\<open>null\<close>.
\<close>

definition cg_collect :: "(string \<rightharpoonup> cg_entry) body \<Rightarrow> exn + (string \<rightharpoonup> cg_quote)" where
  "cg_collect data =
     (case data of
        Null \<Rightarrow> Inl TypeError
      | Value m \<Rightarrow>
          Inr (foldl (\<lambda>result (ticker, geckoId).
                 case m geckoId of
                   None \<Rightarrow> result
                 | Some e \<Rightarrow> result(ticker \<mapsto>
                     \<lparr> cg_price = usd e, cg_change24h = usd_24h_change e,
                       cg_marketCap = usd_market_cap e, cg_source = ''coingecko'' \<rparr>))
               Map.empty ids))"

definition fetchCoinGecko ::
  "string list \<Rightarrow> (string \<rightharpoonup> cg_entry) body upstream \<Rightarrow> exn + (string \<rightharpoonup> cg_quote)" where
  "fetchCoinGecko assets up =
     (let geckoIds = join (List.map_filter (map_of ids) assets) in
      if geckoIds = [] then Inr Map.empty
      else (case (case fetch up of Inl e \<Rightarrow> Inl e | Inr data \<Rightarrow> cg_collect data) of
              Inl e \<Rightarrow> Inr Map.empty
            | Inr result \<Rightarrow> Inr result))"

subsection \<open>Source 2: DeFiLlama prices\<close>

definition llamaIds :: "(string \<times> string) list" where
  "llamaIds =
     [(''BTC'', ''coingecko:bitcoin''), (''ETH'', ''coingecko:ethereum''),
      (''SOL'', ''coingecko:solana''), (''BNB'', ''coingecko:binancecoin''),
      (''XRP'', ''coingecko:ripple''), (''ADA'', ''coingecko:cardano''),
      (''AVAX'', ''coingecko:avalanche-2''), (''DOGE'', ''coingecko:dogecoin''),
      (''LINK'', ''coingecko:chainlink''), (''UNI'', ''coingecko:uniswap''),
      (''AAVE'', ''coingecko:aave''), (''ARB'', ''coingecko:arbitrum''),
      (''OP'', ''coingecko:optimism'')]"

record dl_entry =
  dle_price :: rat
  dle_confidence :: "rat option"

text \<open>
  The body is seen through its member \<^verbatim>\<open>coins\<close>: \<open>None\<close> when the member is missing or
  falsy, which \<^verbatim>\<open>data.coins && ...\<close> skips.
\<close>

definition dl_collect ::
  "(string \<rightharpoonup> dl_entry) option body \<Rightarrow> exn + (string \<rightharpoonup> dl_quote)" where
  "dl_collect data =
     (case data of
        Null \<Rightarrow> Inl TypeError
      | Value coins \<Rightarrow>
          Inr (foldl (\<lambda>result (ticker, llamaId).
                 case coins of
                   None \<Rightarrow> result
                 | Some m \<Rightarrow>
                     (case m llamaId of
                        None \<Rightarrow> result
                      | Some e \<Rightarrow> result(ticker \<mapsto>
                          \<lparr> dl_price = dle_price e,
                            dl_confidence = (case dle_confidence e of
                                               None \<Rightarrow> 99 / 100
                                             | Some c \<Rightarrow> if c = 0 then 99 / 100 else c),
                            dl_source = ''defillama'' \<rparr>)))
               Map.empty llamaIds))"

definition fetchDeFiLlama ::
  "string list \<Rightarrow> (string \<rightharpoonup> dl_entry) option body upstream \<Rightarrow> exn + (string \<rightharpoonup> dl_quote)" where
  "fetchDeFiLlama assets up =
     (let coins = join (List.map_filter (map_of llamaIds) assets) in
      if coins = [] then Inr Map.empty
      else (case (case fetch up of Inl e \<Rightarrow> Inl e | Inr data \<Rightarrow> dl_collect data) of
              Inl e \<Rightarrow> Inr Map.empty
            | Inr result \<Rightarrow> Inr result))"

subsection \<open>Source 3: Fear and Greed index\<close>

record fng_entry =
  fng_value :: "string option"
  value_classification :: "string option"
  fng_timestamp :: "string option"

record fear_greed =
  fg_value :: "int jsnum"
  fg_label :: "string option"
  fg_timestamp :: "int jsnum"
  fg_source :: string

text \<open>
  The body is seen through what \<^verbatim>\<open>data.data[0]\<close> arrives at. It is \<open>Absent\<close> when the member
  \<^verbatim>\<open>data\<close> is missing or \<^verbatim>\<open>null\<close> (the read of \<^verbatim>\<open>[0]\<close> throws) and when there is no first
  element or it is \<^verbatim>\<open>null\<close> (the read of \<^verbatim>\<open>.value\<close> throws).
\<close>

definition fg_build :: "fng_entry member body \<Rightarrow> exn + fear_greed" where
  "fg_build data =
     (case data of
        Null \<Rightarrow> Inl TypeError
      | Value Absent \<Rightarrow> Inl TypeError
      | Value Plain \<Rightarrow>
          Inr \<lparr> fg_value = parseInt_of None, fg_label = None,
                fg_timestamp = parseInt_of None, fg_source = ''alternative.me'' \<rparr>
      | Value (Object e) \<Rightarrow>
          Inr \<lparr> fg_value = parseInt_of (fng_value e), fg_label = value_classification e,
                fg_timestamp = parseInt_of (fng_timestamp e), fg_source = ''alternative.me'' \<rparr>)"

definition fetchFearGreed :: "fng_entry member body upstream \<Rightarrow> exn + fear_greed option" where
  "fetchFearGreed up =
     (case (case fetch up of Inl e \<Rightarrow> Inl e | Inr data \<Rightarrow> fg_build data) of
        Inl e \<Rightarrow> Inr None
      | Inr r \<Rightarrow> Inr (Some r))"

subsection \<open>Source 4: chain TVL\<close>

record chain_entry =
  c_name :: "string option"
  c_tvl :: "rat option"

record chain_row =
  chain :: "string option"
  row_tvl :: "rat option"

record tvl_block =
  chains :: "chain_row list"
  tvl_source :: string

text \<open>
  The body is \<open>Value None\<close> when it is not an array (\<^verbatim>\<open>data.sort\<close> is then not a function and
  the call throws). An element of the array is \<open>None\<close> when it is \<^verbatim>\<open>null\<close>: the comparator,
  or the function mapped over a single element, throws on its first read. An element that is
  not an object has neither member. \<^verbatim>\<open>Array.prototype.sort\<close> is stable, and so is
  \<^const>\<open>sort_key\<close>; the comparator \<^verbatim>\<open>(b.tvl || 0) - (a.tvl || 0)\<close> orders by descending TVL.
\<close>

definition tvl_build :: "chain_entry option list option body \<Rightarrow> exn + tvl_block" where
  "tvl_build data =
     (case data of
        Null \<Rightarrow> Inl TypeError
      | Value None \<Rightarrow> Inl TypeError
      | Value (Some cs) \<Rightarrow>
          (case those cs of
             None \<Rightarrow> Inl TypeError
           | Some es \<Rightarrow>
               Inr \<lparr> chains = map (\<lambda>c. \<lparr> chain = c_name c, row_tvl = c_tvl c \<rparr>)
                                 (take 15 (sort_key (\<lambda>c. - or_0 (c_tvl c)) es)),
                     tvl_source = ''defillama'' \<rparr>))"

definition fetchTVL ::
  "chain_entry option list option body upstream \<Rightarrow> exn + tvl_block option" where
  "fetchTVL up =
     (case (case fetch up of Inl e \<Rightarrow> Inl e | Inr data \<Rightarrow> tvl_build data) of
        Inl e \<Rightarrow> Inr None
      | Inr r \<Rightarrow> Inr (Some r))"

subsection \<open>Source 5: stablecoins\<close>

text \<open>\<open>pegged_circulating\<close> is \<^verbatim>\<open>s.circulating?.peggedUSD\<close>.\<close>

record pegged_asset =
  pa_name :: "string option"
  pa_symbol :: "string option"
  pegged_circulating :: "rat option"
  pa_price :: "rat option"

record stablecoin_row =
  sc_name :: "string option"
  sc_symbol :: "string option"
  sc_circulating :: rat
  sc_price :: "rat option"

record stablecoin_block =
  stablecoin_rows :: "stablecoin_row list"
  sc_source :: string

text \<open>
  The body is seen through its member \<^verbatim>\<open>peggedAssets\<close>: \<open>None\<close> when it is not an array. An
  element of the array is \<open>None\<close> when it is \<^verbatim>\<open>null\<close>, on which the read of \<^verbatim>\<open>.circulating\<close>
  throws.
\<close>

definition sc_build :: "pegged_asset option list option body \<Rightarrow> exn + stablecoin_block" where
  "sc_build data =
     (case data of
        Null \<Rightarrow> Inl TypeError
      | Value None \<Rightarrow> Inl TypeError
      | Value (Some ps) \<Rightarrow>
          (case those ps of
             None \<Rightarrow> Inl TypeError
           | Some es \<Rightarrow>
               Inr \<lparr> stablecoin_rows =
                       map (\<lambda>s. \<lparr> sc_name = pa_name s, sc_symbol = pa_symbol s,
                                  sc_circulating = or_0 (pegged_circulating s),
                                  sc_price = pa_price s \<rparr>)
                           (take 10 (sort_key (\<lambda>s. - or_0 (pegged_circulating s)) es)),
                     sc_source = ''defillama'' \<rparr>))"

definition fetchStablecoins ::
  "pegged_asset option list option body upstream \<Rightarrow> exn + stablecoin_block option" where
  "fetchStablecoins up =
     (case (case fetch up of Inl e \<Rightarrow> Inl e | Inr data \<Rightarrow> sc_build data) of
        Inl e \<Rightarrow> Inr None
      | Inr r \<Rightarrow> Inr (Some r))"

subsection \<open>Source 6: gas\<close>

record gas_result =
  SafeGasPrice :: "string option"
  ProposeGasPrice :: "string option"
  FastGasPrice :: "string option"

text \<open>
  \<open>gas_status\<close> is the member \<^verbatim>\<open>status\<close> of the body when it is a string, and
  \<open>gas_result_of\<close> is what its member \<^verbatim>\<open>result\<close> is: on a missing \<^verbatim>\<open>result\<close> the read of
  \<^verbatim>\<open>.SafeGasPrice\<close> throws, on a \<^verbatim>\<open>result\<close> that is a string (the message of the provider)
  the three reads find \<^verbatim>\<open>undefined\<close> and \<^verbatim>\<open>parseInt\<close> turns each into \<^verbatim>\<open>NaN\<close>.
\<close>

record gas_body =
  gas_status :: "string option"
  gas_result_of :: "gas_result member"

record gas_block =
  low :: "int jsnum"
  standard :: "int jsnum"
  fast :: "int jsnum"
  gas_source :: string

definition gas_build :: "gas_body body \<Rightarrow> exn + gas_block option" where
  "gas_build data =
     (case data of
        Null \<Rightarrow> Inl TypeError
      | Value b \<Rightarrow>
          if gas_status b = Some ''1'' then
            (case gas_result_of b of
               Absent \<Rightarrow> Inl TypeError
             | Plain \<Rightarrow>
                 Inr (Some \<lparr> low = parseInt_of None, standard = parseInt_of None,
                             fast = parseInt_of None, gas_source = ''etherscan'' \<rparr>)
             | Object r \<Rightarrow>
                 Inr (Some \<lparr> low = parseInt_of (SafeGasPrice r),
                             standard = parseInt_of (ProposeGasPrice r),
                             fast = parseInt_of (FastGasPrice r), gas_source = ''etherscan'' \<rparr>))
          else Inr None)"

definition fetchGas :: "gas_body body upstream \<Rightarrow> exn + gas_block option" where
  "fetchGas up =
     (case (case fetch up of Inl e \<Rightarrow> Inl e | Inr data \<Rightarrow> gas_build data) of
        Inl e \<Rightarrow> Inr None
      | Inr r \<Rightarrow> Inr r)"

section \<open>One aggregation cycle (sources.js)\<close>

record snapshot =
  s_timestamp :: int
  s_iso :: iso8601
  s_oracle :: string
  s_verification :: string
  s_prices :: "(string \<times> verified) list"
  fearGreed :: "fear_greed option"
  tvl :: "tvl_block option"
  stablecoins :: "stablecoin_block option"
  gas :: "gas_block option"

text \<open>
  Everything the outside decides during one aggregation cycle in which every request comes to
  an end: how each of the six requests to the providers ends, and what the clock shows when
  the snapshot is stamped
  (\<^verbatim>\<open>Date.now()\<close>, then \<^verbatim>\<open>new Date()\<close>), in milliseconds. An ISO-8601 string is
  represented by the instant it prints, \<open>ISO ms\<close>. The clock shows whole milliseconds, and
  for every instant a \<^verbatim>\<open>Date\<close> can hold \<^verbatim>\<open>Math.floor(Date.now() / 1000)\<close> is the integer
  quotient: the rounding of the division is too small to reach the next whole second.
\<close>

record cycle =
  coingecko_api :: "(string \<rightharpoonup> cg_entry) body upstream"
  defillama_api :: "(string \<rightharpoonup> dl_entry) option body upstream"
  feargreed_api :: "fng_entry member body upstream"
  tvl_api :: "chain_entry option list option body upstream"
  stablecoins_api :: "pegged_asset option list option body upstream"
  etherscan_api :: "gas_body body upstream"
  clock_stamp :: int
  clock_iso :: int

text \<open>
  \<^verbatim>\<open>Promise.all\<close> is fulfilled with all the values when every promise is fulfilled and is
  rejected as soon as one of them is rejected; of several rejections the model reports the
  first in the order of the array.
\<close>

definition Promise_all6 ::
  "exn + 'a \<Rightarrow> exn + 'b \<Rightarrow> exn + 'c \<Rightarrow> exn + 'd \<Rightarrow> exn + 'e \<Rightarrow> exn + 'f
   \<Rightarrow> exn + ('a \<times> 'b \<times> 'c \<times> 'd \<times> 'e \<times> 'f)" where
  "Promise_all6 p1 p2 p3 p4 p5 p6 =
     (case p1 of Inl e \<Rightarrow> Inl e | Inr v1 \<Rightarrow>
       (case p2 of Inl e \<Rightarrow> Inl e | Inr v2 \<Rightarrow>
         (case p3 of Inl e \<Rightarrow> Inl e | Inr v3 \<Rightarrow>
           (case p4 of Inl e \<Rightarrow> Inl e | Inr v4 \<Rightarrow>
             (case p5 of Inl e \<Rightarrow> Inl e | Inr v5 \<Rightarrow>
               (case p6 of Inl e \<Rightarrow> Inl e | Inr v6 \<Rightarrow> Inr (v1, v2, v3, v4, v5, v6)))))))"

text \<open>
  The loop \<^verbatim>\<open>for (const asset of assets)\<close>: \<^verbatim>\<open>prices[asset] = verified\<close> overwrites the entry
  of a ticker that is already there and appends a new one otherwise, as \<^const>\<open>AList.update\<close>
  does.
\<close>

definition collect_prices ::
  "(string \<rightharpoonup> cg_quote) \<Rightarrow> (string \<rightharpoonup> dl_quote) \<Rightarrow> string list \<Rightarrow> (string \<times> verified) list" where
  "collect_prices coinGecko deFiLlama assets =
     foldl (\<lambda>ps a. case crossVerify coinGecko deFiLlama a of
                      None \<Rightarrow> ps
                    | Some v \<Rightarrow> AList.update a v ps)
           [] assets"

definition getFullSnapshot :: "string list \<Rightarrow> cycle \<Rightarrow> exn + snapshot" where
  "getFullSnapshot assets w =
     (case Promise_all6 (fetchCoinGecko assets (coingecko_api w))
                        (fetchDeFiLlama assets (defillama_api w))
                        (fetchFearGreed (feargreed_api w))
                        (fetchTVL (tvl_api w))
                        (fetchStablecoins (stablecoins_api w))
                        (fetchGas (etherscan_api w)) of
        Inl e \<Rightarrow> Inl e
      | Inr (coinGecko, deFiLlama, fg, tv, sc, gs) \<Rightarrow>
          Inr \<lparr> s_timestamp = clock_stamp w div 1000,
                s_iso = ISO (clock_iso w),
                s_oracle = ''MoltOracle v1.0.0'',
                s_verification = ''cross-sourced'',
                s_prices = collect_prices coinGecko deFiLlama assets,
                fearGreed = fg, tvl = tv, stablecoins = sc, gas = gs \<rparr>)"

definition default_assets :: "string list" where
  "default_assets =
     [''BTC'', ''ETH'', ''SOL'', ''BNB'', ''XRP'', ''LINK'', ''AAVE'', ''ARB'', ''OP'', ''UNI'']"

section \<open>Requests that come to no end (sources.js)\<close>

text \<open>
  \<^verbatim>\<open>fetch\<close> sets no timeout and listens for \<^verbatim>\<open>'error'\<close> on the request only. When the
  provider accepts the connection and never answers, or stops in the middle of the body,
  neither \<^verbatim>\<open>resolve\<close> nor \<^verbatim>\<open>reject\<close> is ever called: the promise of \<^verbatim>\<open>fetch\<close> stays pending
  and the \<^verbatim>\<open>await\<close> on it never resumes. A request therefore stalls or settles, and what an
  asynchronous call comes to is an optional value: \<open>None\<close> is a promise that stays pending
  for ever, \<open>Some (Inl e)\<close> one that is rejected, \<open>Some (Inr v)\<close> one that is fulfilled.
  The functions of the sections above describe the calls whose requests settle; here they are
  completed by the case that is left.
\<close>

datatype 'b request = Stalls | Settles "'b upstream"

definition fetch_promise :: "'b request \<Rightarrow> (exn + 'b) option" where
  "fetch_promise rq = (case rq of Stalls \<Rightarrow> None | Settles up \<Rightarrow> Some (fetch up))"

text \<open>
  An \<^verbatim>\<open>await\<close> on the promise of \<^verbatim>\<open>fetch\<close> inside an adapter: the adapter never resumes when
  the request stalls, and goes on as \<open>k\<close> describes with the way the request ended otherwise.
\<close>

definition awaited :: "'b request \<Rightarrow> ('b upstream \<Rightarrow> exn + 'r) \<Rightarrow> (exn + 'r) option" where
  "awaited rq k = (case rq of Stalls \<Rightarrow> None | Settles up \<Rightarrow> Some (k up))"

text \<open>
  The promises of the six adapters. The two price adapters return before any request is made
  when none of the assets has an id.
\<close>

definition fetchCoinGecko_promise ::
  "string list \<Rightarrow> (string \<rightharpoonup> cg_entry) body request \<Rightarrow> (exn + (string \<rightharpoonup> cg_quote)) option" where
  "fetchCoinGecko_promise assets rq =
     (if join (List.map_filter (map_of ids) assets) = [] then Some (Inr Map.empty)
      else awaited rq (fetchCoinGecko assets))"

definition fetchDeFiLlama_promise ::
  "string list \<Rightarrow> (string \<rightharpoonup> dl_entry) option body request
   \<Rightarrow> (exn + (string \<rightharpoonup> dl_quote)) option" where
  "fetchDeFiLlama_promise assets rq =
     (if join (List.map_filter (map_of llamaIds) assets) = [] then Some (Inr Map.empty)
      else awaited rq (fetchDeFiLlama assets))"

definition fetchFearGreed_promise ::
  "fng_entry member body request \<Rightarrow> (exn + fear_greed option) option" where
  "fetchFearGreed_promise rq = awaited rq fetchFearGreed"

definition fetchTVL_promise ::
  "chain_entry option list option body request \<Rightarrow> (exn + tvl_block option) option" where
  "fetchTVL_promise rq = awaited rq fetchTVL"

definition fetchStablecoins_promise ::
  "pegged_asset option list option body request \<Rightarrow> (exn + stablecoin_block option) option" where
  "fetchStablecoins_promise rq = awaited rq fetchStablecoins"

definition fetchGas_promise :: "gas_body body request \<Rightarrow> (exn + gas_block option) option" where
  "fetchGas_promise rq = awaited rq fetchGas"

text \<open>The six requests of one cycle and the clock, as in \<open>cycle\<close>.\<close>

record requests =
  coingecko_rq :: "(string \<rightharpoonup> cg_entry) body request"
  defillama_rq :: "(string \<rightharpoonup> dl_entry) option body request"
  feargreed_rq :: "fng_entry member body request"
  tvl_rq :: "chain_entry option list option body request"
  stablecoins_rq :: "pegged_asset option list option body request"
  etherscan_rq :: "gas_body body request"
  rq_stamp :: int
  rq_iso :: int

definition settling :: "cycle \<Rightarrow> requests" where
  "settling c =
     \<lparr> coingecko_rq = Settles (coingecko_api c), defillama_rq = Settles (defillama_api c),
       feargreed_rq = Settles (feargreed_api c), tvl_rq = Settles (tvl_api c),
       stablecoins_rq = Settles (stablecoins_api c), etherscan_rq = Settles (etherscan_api c),
       rq_stamp = clock_stamp c, rq_iso = clock_iso c \<rparr>"

text \<open>
  \<^verbatim>\<open>Promise.all\<close> on promises that may stay pending: it is rejected as soon as one of them is
  rejected (of several rejections the first in the order of the array is reported), fulfilled
  once all of them are fulfilled, and pending otherwise.
\<close>

definition rejection :: "(exn + 'a) option \<Rightarrow> exn option" where
  "rejection p = (case p of None \<Rightarrow> None | Some (Inl e) \<Rightarrow> Some e | Some (Inr v) \<Rightarrow> None)"

definition fulfilment :: "(exn + 'a) option \<Rightarrow> 'a option" where
  "fulfilment p = (case p of None \<Rightarrow> None | Some (Inl e) \<Rightarrow> None | Some (Inr v) \<Rightarrow> Some v)"

definition Promise_all6_pending ::
  "(exn + 'a) option \<Rightarrow> (exn + 'b) option \<Rightarrow> (exn + 'c) option \<Rightarrow> (exn + 'd) option
   \<Rightarrow> (exn + 'e) option \<Rightarrow> (exn + 'f) option
   \<Rightarrow> (exn + ('a \<times> 'b \<times> 'c \<times> 'd \<times> 'e \<times> 'f)) option" where
  "Promise_all6_pending p1 p2 p3 p4 p5 p6 =
     (case List.map_filter (\<lambda>x. x)
             [rejection p1, rejection p2, rejection p3, rejection p4, rejection p5,
              rejection p6] of
        e # es \<Rightarrow> Some (Inl e)
      | [] \<Rightarrow>
          (case (fulfilment p1, fulfilment p2, fulfilment p3, fulfilment p4, fulfilment p5,
                 fulfilment p6) of
             (Some v1, Some v2, Some v3, Some v4, Some v5, Some v6) \<Rightarrow>
               Some (Inr (v1, v2, v3, v4, v5, v6))
           | _ \<Rightarrow> None))"

definition getFullSnapshot_promise :: "string list \<Rightarrow> requests \<Rightarrow> (exn + snapshot) option" where
  "getFullSnapshot_promise assets k =
     (case Promise_all6_pending (fetchCoinGecko_promise assets (coingecko_rq k))
                                (fetchDeFiLlama_promise assets (defillama_rq k))
                                (fetchFearGreed_promise (feargreed_rq k))
                                (fetchTVL_promise (tvl_rq k))
                                (fetchStablecoins_promise (stablecoins_rq k))
                                (fetchGas_promise (etherscan_rq k)) of
        None \<Rightarrow> None
      | Some (Inl e) \<Rightarrow> Some (Inl e)
      | Some (Inr (coinGecko, deFiLlama, fg, tv, sc, gs)) \<Rightarrow>
          Some (Inr \<lparr> s_timestamp = rq_stamp k div 1000,
                      s_iso = ISO (rq_iso k),
                      s_oracle = ''MoltOracle v1.0.0'',
                      s_verification = ''cross-sourced'',
                      s_prices = collect_prices coinGecko deFiLlama assets,
                      fearGreed = fg, tvl = tv, stablecoins = sc, gas = gs \<rparr>))"

section \<open>The API server\<close>

text \<open>
  What the server takes from its platform: the SHA-256 digest of a string in hexadecimal
  (\<^verbatim>\<open>crypto.createHash('sha256').update(s).digest('hex')\<close>), the string of a number as
  \<^verbatim>\<open>JSON.stringify\<close> prints it, and the environment variable \<^verbatim>\<open>RATE_LIMIT\<close>.
\<close>

record platform =
  sha256_hex :: "string \<Rightarrow> string"
  number_string :: "rat \<Rightarrow> string"
  env_RATE_LIMIT :: "string option"

definition RATE_LIMIT :: "platform \<Rightarrow> int jsnum" where
  "RATE_LIMIT pf =
     parseInt (case env_RATE_LIMIT pf of None \<Rightarrow> ''30'' | Some s \<Rightarrow> if s = [] then ''30'' else s)"

text \<open>
  The state of the process. The cached snapshot is an object on the heap and \<open>cache\<close> a
  reference to it (or \<^verbatim>\<open>null\<close>): a handler that is given the cached snapshot is given that
  reference, and what it writes through it is written to the one object. The records under
  \<^verbatim>\<open>prices\<close> are reachable through their snapshot only and are kept inside it. Requests are
  served one after the other; two handlers interleaved at an \<^verbatim>\<open>await\<close> are not modelled.
\<close>

type_synonym ref = nat

record server =
  rateLimits :: "string \<rightharpoonup> int list"
  heap :: "ref \<rightharpoonup> snapshot"
  heap_next :: ref
  cache :: "ref option"
  cacheTime :: int

definition init_server :: server where
  "init_server =
     \<lparr> rateLimits = Map.empty, heap = Map.empty, heap_next = 0, cache = None, cacheTime = 0 \<rparr>"

text \<open>The reference in \<open>cache\<close>, if there is one, points to an object below the allocation mark.\<close>

definition heap_ok :: "server \<Rightarrow> bool" where
  "heap_ok st =
     ((case cache st of None \<Rightarrow> True | Some r \<Rightarrow> r < heap_next st \<and> heap st r \<noteq> None))"

subsection \<open>Rate limiting\<close>

definition window :: int where
  "window = 3600000"

text \<open>
  \<^verbatim>\<open>calls.push(now)\<close> pushes to the array that has just been stored in the map, so the map
  holds the extended array.
\<close>

definition checkRateLimit :: "int jsnum \<Rightarrow> server \<Rightarrow> string \<Rightarrow> int \<Rightarrow> bool \<times> server" where
  "checkRateLimit limit st ip now =
     (let calls = filter (\<lambda>t. now - window < t)
                    (case rateLimits st ip of None \<Rightarrow> [] | Some ts \<Rightarrow> ts)
      in if js_ge (int (length calls)) limit
         then (False, st\<lparr> rateLimits := (rateLimits st)(ip \<mapsto> calls) \<rparr>)
         else (True, st\<lparr> rateLimits := (rateLimits st)(ip \<mapsto> calls @ [now]) \<rparr>))"

text \<open>One client calling at the times of a list, in that order; the answers are collected.\<close>

fun calls_at :: "int jsnum \<Rightarrow> server \<Rightarrow> string \<Rightarrow> int list \<Rightarrow> bool list \<times> server" where
  "calls_at limit st ip [] = ([], st)"
| "calls_at limit st ip (t # ts) =
     (case checkRateLimit limit st ip t of
        (b, st') \<Rightarrow> (case calls_at limit st' ip ts of (bs, st'') \<Rightarrow> (b # bs, st'')))"

subsection \<open>The data hash\<close>

text \<open>\<^verbatim>\<open>JSON.stringify\<close> of a string: quoted, with the escapes of ECMA-262 (QuoteJSONString).\<close>

definition hex_digit :: "nat \<Rightarrow> char" where
  "hex_digit n = ''0123456789abcdef'' ! (n mod 16)"

definition json_escape :: "char \<Rightarrow> string" where
  "json_escape c =
     (let n = of_char c :: nat in
      if n = 34 then [CHR 0x5C, CHR 0x22]
      else if n = 92 then [CHR 0x5C, CHR 0x5C]
      else if n = 8 then [CHR 0x5C, CHR ''b'']
      else if n = 12 then [CHR 0x5C, CHR ''f'']
      else if n = 10 then [CHR 0x5C, CHR ''n'']
      else if n = 13 then [CHR 0x5C, CHR ''r'']
      else if n = 9 then [CHR 0x5C, CHR ''t'']
      else if n < 32 then [CHR 0x5C, CHR ''u'', CHR ''0'', CHR ''0'', hex_digit (n div 16), hex_digit n]
      else [c])"

definition json_string :: "string \<Rightarrow> string" where
  "json_string s = [CHR 0x22] @ concat (map json_escape s) @ [CHR 0x22]"

text \<open>
  \<^verbatim>\<open>JSON.stringify({ asset, price, sources, timestamp })\<close>. The timestamp is an integer and
  is printed as one; how the price is printed is left to the platform.
\<close>

definition payload :: "platform \<Rightarrow> string \<Rightarrow> rat \<Rightarrow> string list \<Rightarrow> int \<Rightarrow> string" where
  "payload pf a p srcs ts =
     ''{'' @ json_string ''asset'' @ '':'' @ json_string a @ '','' @
     json_string ''price'' @ '':'' @ number_string pf p @ '','' @
     json_string ''sources'' @ '':['' @ join (map json_string srcs) @ ''],'' @
     json_string ''timestamp'' @ '':'' @ int_string ts @ ''}''"

definition computeDataHash :: "platform \<Rightarrow> string \<Rightarrow> rat \<Rightarrow> string list \<Rightarrow> int \<Rightarrow> string" where
  "computeDataHash pf a p srcs ts = ''0x'' @ sha256_hex pf (payload pf a p srcs ts)"

subsection \<open>The cache\<close>

definition CACHE_TTL :: int where
  "CACHE_TTL = 60000"

text \<open>
  What the outside decides while one request is served: the clock at the rate-limit check, the
  clock at the cache check, the aggregation cycle (run only when the cache does not answer)
  and the clock when its result is stored. The requests of the cycle come to an end: a
  handler whose cycle stays pending never answers, and what is said about answers is said
  about the handlers that give one.
\<close>

record world =
  now_limit :: int
  now_check :: int
  fanout :: cycle
  now_stored :: int

text \<open>
  The result is a reference to the cached object. When \<^verbatim>\<open>getFullSnapshot\<close> rejects, the
  \<^verbatim>\<open>await\<close> throws before the assignment, and the cache is left as it was.
\<close>

definition getCachedSnapshot :: "server \<Rightarrow> world \<Rightarrow> (exn + ref) \<times> server" where
  "getCachedSnapshot st w =
     (case (if now_check w - cacheTime st < CACHE_TTL then cache st else None) of
        Some r \<Rightarrow> (Inr r, st)
      | None \<Rightarrow>
          (case getFullSnapshot default_assets (fanout w) of
             Inl e \<Rightarrow> (Inl e, st)
           | Inr snap \<Rightarrow>
               (Inr (heap_next st),
                st\<lparr> heap := (heap st)(heap_next st \<mapsto> snap),
                    heap_next := Suc (heap_next st),
                    cache := Some (heap_next st),
                    cacheTime := now_stored w \<rparr>)))"

subsection \<open>Routes\<close>

datatype response =
    Snapshot200 snapshot
  | Price200 verified
  | Prices200 int iso8601 "(string \<times> verified) list"
  | Status429
  | Status404 string
  | Status500 exn

definition to_upper :: "char \<Rightarrow> char" where
  "to_upper c =
     (let n = of_char c :: nat in
      if 97 \<le> n \<and> n \<le> 122 then ''ABCDEFGHIJKLMNOPQRSTUVWXYZ'' ! (n - 97) else c)"

definition toUpperCase :: "string \<Rightarrow> string" where
  "toUpperCase s = map to_upper s"

text \<open>The loop of \<^verbatim>\<open>GET /snapshot\<close> over \<^verbatim>\<open>Object.entries(data.prices)\<close>.\<close>

definition attach_hashes :: "platform \<Rightarrow> snapshot \<Rightarrow> snapshot" where
  "attach_hashes pf data =
     data\<lparr> s_prices :=
       map (\<lambda>(a, info).
              (a, info\<lparr> dataHash :=
                    Some (computeDataHash pf a (price info) (sourceNames info) (s_timestamp data)) \<rparr>))
           (s_prices data) \<rparr>"

text \<open>
  A read through a reference that points nowhere would throw; the \<^verbatim>\<open>catch\<close> of the handler
  turns it into a 500.
\<close>

definition get_snapshot :: "platform \<Rightarrow> server \<Rightarrow> string \<Rightarrow> world \<Rightarrow> response \<times> server" where
  "get_snapshot pf st ip w =
     (case checkRateLimit (RATE_LIMIT pf) st ip (now_limit w) of
        (False, st1) \<Rightarrow> (Status429, st1)
      | (True, st1) \<Rightarrow>
          (case getCachedSnapshot st1 w of
             (Inl e, st2) \<Rightarrow> (Status500 e, st2)
           | (Inr r, st2) \<Rightarrow>
               (case heap st2 r of
                  None \<Rightarrow> (Status500 TypeError, st2)
                | Some data \<Rightarrow>
                    (Snapshot200 (attach_hashes pf data),
                     st2\<lparr> heap := (heap st2)(r \<mapsto> attach_hashes pf data) \<rparr>))))"

definition get_price ::
  "platform \<Rightarrow> server \<Rightarrow> string \<Rightarrow> string \<Rightarrow> world \<Rightarrow> response \<times> server" where
  "get_price pf st ip param w =
     (case checkRateLimit (RATE_LIMIT pf) st ip (now_limit w) of
        (False, st1) \<Rightarrow> (Status429, st1)
      | (True, st1) \<Rightarrow>
          (let a = toUpperCase param in
           case getCachedSnapshot st1 w of
             (Inl e, st2) \<Rightarrow> (Status500 e, st2)
           | (Inr r, st2) \<Rightarrow>
               (case heap st2 r of
                  None \<Rightarrow> (Status500 TypeError, st2)
                | Some data \<Rightarrow>
                    (case map_of (s_prices data) a of
                       None \<Rightarrow> (Status404 (''Asset '' @ a @ '' not tracked''), st2)
                     | Some info \<Rightarrow>
                         (let info' = info\<lparr>
                                dataHash := Some (computeDataHash pf a (price info)
                                                    (sourceNames info) (s_timestamp data)),
                                asset := Some a,
                                timestamp := Some (s_timestamp data),
                                iso := Some (s_iso data) \<rparr>
                          in (Price200 info',
                              st2\<lparr> heap := (heap st2)(r \<mapsto>
                                     data\<lparr> s_prices := AList.update a info' (s_prices data) \<rparr>) \<rparr>))))))"

definition get_prices :: "platform \<Rightarrow> server \<Rightarrow> string \<Rightarrow> world \<Rightarrow> response \<times> server" where
  "get_prices pf st ip w =
     (case checkRateLimit (RATE_LIMIT pf) st ip (now_limit w) of
        (False, st1) \<Rightarrow> (Status429, st1)
      | (True, st1) \<Rightarrow>
          (case getCachedSnapshot st1 w of
             (Inl e, st2) \<Rightarrow> (Status500 e, st2)
           | (Inr r, st2) \<Rightarrow>
               (case heap st2 r of
                  None \<Rightarrow> (Status500 TypeError, st2)
                | Some data \<Rightarrow> (Prices200 (s_timestamp data) (s_iso data) (s_prices data), st2))))"

section \<open>Concrete runs\<close>

text \<open>
  Inputs on which the definitions are run. In \<open>outage\<close> no provider delivers a body: the
  connection fails or what arrives is not JSON. In \<open>malformed\<close> every provider delivers JSON of
  the wrong shape: the body \<^verbatim>\<open>null\<close>, an empty \<^verbatim>\<open>data\<close> array, an array of chains with a
  \<^verbatim>\<open>null\<close> in it, a missing \<^verbatim>\<open>peggedAssets\<close>, and a gas oracle whose status is not \<^verbatim>\<open>'1'\<close>.
  In \<open>bitcoin_only\<close> CoinGecko alone answers, with a quote for bitcoin.
\<close>

definition outage :: cycle where
  "outage =
     \<lparr> coingecko_api = NoResponse, defillama_api = NotJson 502, feargreed_api = NoResponse,
       tvl_api = NotJson 200, stablecoins_api = NoResponse, etherscan_api = NotJson 503,
       clock_stamp = 1700000000123, clock_iso = 1700000000124 \<rparr>"

definition ethereum_chain :: chain_entry where
  "ethereum_chain = \<lparr> c_name = Some ''Ethereum'', c_tvl = Some 50000000000 \<rparr>"

definition malformed :: cycle where
  "malformed =
     \<lparr> coingecko_api = Json 200 Null, defillama_api = Json 200 Null,
       feargreed_api = Json 200 (Value Absent),
       tvl_api = Json 200 (Value (Some [Some ethereum_chain, None])),
       stablecoins_api = Json 200 (Value None),
       etherscan_api = Json 200 (Value \<lparr> gas_status = Some ''0'', gas_result_of = Plain \<rparr>),
       clock_stamp = 1700000000123, clock_iso = 1700000000124 \<rparr>"

definition bitcoin_only :: cycle where
  "bitcoin_only =
     outage\<lparr> coingecko_api :=
       Json 200 (Value [''bitcoin'' \<mapsto> \<lparr> usd = 67000, usd_24h_change = Some (- 23 / 10),
                                          usd_market_cap = Some 1300000000000 \<rparr>]) \<rparr>"

text \<open>
  In \<open>troubled\<close> the providers are in trouble and say so in the status code, while the bodies
  they send have the expected shape: DeFiLlama quotes bitcoin with status 404, the index of
  fear and greed comes with 503, the chains with 500, the stablecoins with 429, and the gas
  oracle sends the status member \<^verbatim>\<open>'1'\<close> with a message in place of the result object.
\<close>

definition fear_45 :: fng_entry where
  "fear_45 =
     \<lparr> fng_value = Some ''45'', value_classification = Some ''Fear'',
       fng_timestamp = Some ''1700000000'' \<rparr>"

definition tether :: pegged_asset where
  "tether =
     \<lparr> pa_name = Some ''Tether'', pa_symbol = Some ''USDT'', pegged_circulating = None,
       pa_price = Some 1 \<rparr>"

definition troubled :: cycle where
  "troubled =
     bitcoin_only
       \<lparr> defillama_api :=
           Json 404 (Value (Some [''coingecko:bitcoin'' \<mapsto>
                                    \<lparr> dle_price = 67005, dle_confidence = None \<rparr>])),
         feargreed_api := Json 503 (Value (Object fear_45)),
         tvl_api := Json 500 (Value (Some [Some ethereum_chain])),
         stablecoins_api := Json 429 (Value (Some [Some tether])),
         etherscan_api := Json 200 (Value \<lparr> gas_status = Some ''1'', gas_result_of = Plain \<rparr>) \<rparr>"

text \<open>
  The requests of \<open>bitcoin_only\<close> with the one to the gas oracle never coming to an end, and a
  cycle in which no request does.
\<close>

definition gas_stalls :: requests where
  "gas_stalls = (settling bitcoin_only)\<lparr> etherscan_rq := Stalls \<rparr>"

definition all_stall :: requests where
  "all_stall =
     \<lparr> coingecko_rq = Stalls, defillama_rq = Stalls, feargreed_rq = Stalls, tvl_rq = Stalls,
       stablecoins_rq = Stalls, etherscan_rq = Stalls,
       rq_stamp = 1700000000123, rq_iso = 1700000000124 \<rparr>"

text \<open>A quote of CoinGecko and a quote of DeFiLlama at a given price.\<close>

definition cg_at :: "rat \<Rightarrow> cg_quote" where
  "cg_at p = \<lparr> cg_price = p, cg_change24h = Some 1, cg_marketCap = Some 15000000000,
               cg_source = ''coingecko'' \<rparr>"

definition dl_at :: "rat \<Rightarrow> dl_quote" where
  "dl_at p = \<lparr> dl_price = p, dl_confidence = 99 / 100, dl_source = ''defillama'' \<rparr>"

text \<open>
  A platform to run the handlers on. Its digest is the identity and it prints the integer part
  of a number; the theorems below hold for every platform.
\<close>

definition toy_platform :: platform where
  "toy_platform =
     \<lparr> sha256_hex = (\<lambda>s. s), number_string = (\<lambda>p. int_string (floor p)),
       env_RATE_LIMIT = None \<rparr>"

text \<open>
  A first request, the same request during an outage of all providers, and a request that
  arrives thirty seconds later.
\<close>

definition first_request :: world where
  "first_request =
     \<lparr> now_limit = 1700000000000, now_check = 1700000000001, fanout = bitcoin_only,
       now_stored = 1700000000200 \<rparr>"

definition dark_request :: world where
  "dark_request = first_request\<lparr> fanout := outage \<rparr>"

definition later_request :: world where
  "later_request =
     \<lparr> now_limit = 1700000030000, now_check = 1700000030000, fanout = outage,
       now_stored = 1700000030200 \<rparr>"

section \<open>Properties of the cross-verification engine\<close>

lemma crossVerify_two:
  assumes "coinGecko a = Some cg" and "deFiLlama a = Some dl"
    and "crossVerify coinGecko deFiLlama a = Some r"
  shows "price r = (cg_price cg + dl_price dl) / 2"
    and "divergenceBps r =
           Math_round (js_times (js_div \<bar>cg_price cg - dl_price dl\<bar>
                                        ((cg_price cg + dl_price dl) / 2)) 10000)"
    and "confidence r =
           (if js_le (divergenceBps r) 10 then 99 else if js_le (divergenceBps r) 50 then 95
            else if js_le (divergenceBps r) 100 then 85
            else if js_le (divergenceBps r) 300 then 70 else 40)"
    and "warning r =
           (if js_gt (divergenceBps r) 300
            then Some (''HIGH DIVERGENCE: '' @ js_String (divergenceBps r) @ ''bps between sources'')
            else None)"
    and "sources r = 2" and "sourceNames r = [''coingecko'', ''defillama'']"
    and "change24h r = cg_change24h cg" and "marketCap r = cg_marketCap cg"
  using assms by (auto simp: crossVerify_def Let_def)

lemma divergence_not_NegInf:
  "Math_round (js_times (js_div \<bar>x\<bar> y) 10000) \<noteq> NegInf"
  by (simp add: Math_round_def js_times_def js_div_def)

lemma crossVerify_one:
  assumes "crossVerify coinGecko deFiLlama a = Some r"
    and "coinGecko a = None \<or> deFiLlama a = None"
  shows "price r = (case coinGecko a of Some cg \<Rightarrow> cg_price cg
                    | None \<Rightarrow> dl_price (the (deFiLlama a)))"
    and "sources r = 1" and "confidence r = 60" and "divergenceBps r = Fin 0"
    and "warning r = None" and "change24h r = None" and "marketCap r = None"
    and "sourceNames r = (case coinGecko a of Some cg \<Rightarrow> [''coingecko''] | None \<Rightarrow> [''defillama''])"
  using assms by (auto simp: crossVerify_def single_source_def split: option.splits)

lemma crossVerify_sources:
  assumes "crossVerify coinGecko deFiLlama a = Some r"
  shows "sources r = 1 \<or> sources r = 2"
  using assms
  by (auto simp: crossVerify_def single_source_def Let_def split: option.splits)

text \<open>
  Claim C1. Whenever both adapters have a quote for the ticker, the confidence of the record
  is read off the divergence by the table of the specification: at most 10 basis points give
  99, at most 50 give 95, at most 100 give 85, at most 300 give 70 and anything else 40. The
  warning is there exactly when the divergence exceeds 300, and it spells the figure. The two
  values that are not integers, which a mean of zero produces, fall under "otherwise":
  \<^verbatim>\<open>Infinity\<close> gives 40 with a warning and \<^verbatim>\<open>NaN\<close> gives 40 without one, no comparison with
  \<^verbatim>\<open>NaN\<close> being true.
\<close>

theorem crossVerify_confidence_table:
  assumes "coinGecko a = Some cg" and "deFiLlama a = Some dl"
    and "crossVerify coinGecko deFiLlama a = Some r"
  shows "(\<forall>d. divergenceBps r = Fin d \<longrightarrow>
            confidence r = spec_confidence d \<and>
            warning r = (if 300 < d
                         then Some (''HIGH DIVERGENCE: '' @ int_string d @ ''bps between sources'')
                         else None)) \<and>
         (divergenceBps r = PosInf \<longrightarrow>
            confidence r = 40 \<and>
            warning r = Some ''HIGH DIVERGENCE: Infinitybps between sources'') \<and>
         (divergenceBps r = NaN \<longrightarrow> confidence r = 40 \<and> warning r = None) \<and>
         divergenceBps r \<noteq> NegInf"
proof -
  note f = crossVerify_two [OF assms]
  have "divergenceBps r \<noteq> NegInf"
    unfolding f(2) by (rule divergence_not_NegInf)
  moreover have "\<forall>d. divergenceBps r = Fin d \<longrightarrow>
            confidence r = spec_confidence d \<and>
            warning r = (if 300 < d
                         then Some (''HIGH DIVERGENCE: '' @ int_string d @ ''bps between sources'')
                         else None)"
  proof (intro allI impI)
    fix d assume d: "divergenceBps r = Fin d"
    show "confidence r = spec_confidence d \<and>
            warning r = (if 300 < d
                         then Some (''HIGH DIVERGENCE: '' @ int_string d @ ''bps between sources'')
                         else None)"
      using f(3,4) unfolding d
      by (simp add: js_le_def js_gt_def js_String_def spec_confidence_def)
  qed
  moreover have "divergenceBps r = PosInf \<longrightarrow>
            confidence r = 40 \<and>
            warning r = Some ''HIGH DIVERGENCE: Infinitybps between sources''"
  proof
    assume d: "divergenceBps r = PosInf"
    show "confidence r = 40 \<and>
            warning r = Some ''HIGH DIVERGENCE: Infinitybps between sources''"
      using f(3,4) unfolding d by (simp add: js_le_def js_gt_def js_String_def)
  qed
  moreover have "divergenceBps r = NaN \<longrightarrow> confidence r = 40 \<and> warning r = None"
  proof
    assume d: "divergenceBps r = NaN"
    show "confidence r = 40 \<and> warning r = None"
      using f(3,4) unfolding d by (simp add: js_le_def js_gt_def js_String_def)
  qed
  ultimately show ?thesis by blast
qed

text \<open>
  The boundary of the table and the two values that are not integers: 197 against 203
  diverge by exactly 300 basis points, 196.99 against 203.01 by 301; 1 against -1 have the
  mean zero and diverge by \<^verbatim>\<open>Infinity\<close>, 0 against 0 by \<^verbatim>\<open>NaN\<close>.
\<close>

theorem crossVerify_confidence_table_witness:
  "(\<exists>r. crossVerify [''SOL'' \<mapsto> cg_at 197] [''SOL'' \<mapsto> dl_at 203] ''SOL'' = Some r \<and>
         divergenceBps r = Fin 300 \<and> confidence r = 70 \<and> warning r = None) \<and>
   (\<exists>r. crossVerify [''SOL'' \<mapsto> cg_at (19699 / 100)] [''SOL'' \<mapsto> dl_at (20301 / 100)] ''SOL'' =
           Some r \<and>
         divergenceBps r = Fin 301 \<and> confidence r = 40 \<and>
         warning r = Some ''HIGH DIVERGENCE: 301bps between sources'') \<and>
   (\<exists>r. crossVerify [''SOL'' \<mapsto> cg_at 1] [''SOL'' \<mapsto> dl_at (- 1)] ''SOL'' = Some r \<and>
         divergenceBps r = PosInf \<and> confidence r = 40 \<and>
         warning r = Some ''HIGH DIVERGENCE: Infinitybps between sources'') \<and>
   (\<exists>r. crossVerify [''SOL'' \<mapsto> cg_at 0] [''SOL'' \<mapsto> dl_at 0] ''SOL'' = Some r \<and>
         divergenceBps r = NaN \<and> confidence r = 40 \<and> warning r = None)"
proof -
  have look: "[''SOL'' \<mapsto> q] ''SOL'' = Some q" for q :: 'q
    by simp
  have some: "\<exists>r. crossVerify [''SOL'' \<mapsto> cg_at x] [''SOL'' \<mapsto> dl_at y] ''SOL'' = Some r" for x y
    by (simp add: crossVerify_def Let_def)
  have e: "round (\<bar>197 - 203\<bar> / ((197 + 203) / 2) * 10000 :: rat) = 300"
    "round (\<bar>19699 / 100 - 20301 / 100\<bar> / ((19699 / 100 + 20301 / 100) / 2) * 10000 :: rat) = 301"
    by code_simp+
  have s: "int_string 301 = ''301''"
    by (simp add: int_string_def)
  obtain r1 where r1: "crossVerify [''SOL'' \<mapsto> cg_at 197] [''SOL'' \<mapsto> dl_at 203] ''SOL'' = Some r1"
    using some by blast
  have d1: "divergenceBps r1 = Fin 300"
    using crossVerify_two(2) [OF look look r1] e(1)
    by (simp add: cg_at_def dl_at_def Math_round_def js_times_def js_div_def)
  from crossVerify_confidence_table [OF look look r1] d1
  have 1: "confidence r1 = 70 \<and> warning r1 = None"
    by (simp add: spec_confidence_def)
  obtain r2 where r2: "crossVerify [''SOL'' \<mapsto> cg_at (19699 / 100)]
                         [''SOL'' \<mapsto> dl_at (20301 / 100)] ''SOL'' = Some r2"
    using some by blast
  have d2: "divergenceBps r2 = Fin 301"
    using crossVerify_two(2) [OF look look r2] e(2)
    by (simp add: cg_at_def dl_at_def Math_round_def js_times_def js_div_def)
  from crossVerify_confidence_table [OF look look r2] d2 s
  have 2: "confidence r2 = 40 \<and> warning r2 = Some ''HIGH DIVERGENCE: 301bps between sources''"
    by (simp add: spec_confidence_def)
  obtain r3 where r3: "crossVerify [''SOL'' \<mapsto> cg_at 1] [''SOL'' \<mapsto> dl_at (- 1)] ''SOL'' = Some r3"
    using some by blast
  have d3: "divergenceBps r3 = PosInf"
    using crossVerify_two(2) [OF look look r3]
    by (simp add: cg_at_def dl_at_def Math_round_def js_times_def js_div_def)
  from crossVerify_confidence_table [OF look look r3] d3
  have 3: "confidence r3 = 40 \<and>
           warning r3 = Some ''HIGH DIVERGENCE: Infinitybps between sources''"
    by simp
  obtain r4 where r4: "crossVerify [''SOL'' \<mapsto> cg_at 0] [''SOL'' \<mapsto> dl_at 0] ''SOL'' = Some r4"
    using some by blast
  have d4: "divergenceBps r4 = NaN"
    using crossVerify_two(2) [OF look look r4]
    by (simp add: cg_at_def dl_at_def Math_round_def js_times_def js_div_def)
  from crossVerify_confidence_table [OF look look r4] d4
  have 4: "confidence r4 = 40 \<and> warning r4 = None"
    by simp
  from r1 d1 1 r2 d2 2 r3 d3 3 r4 d4 4 show ?thesis by blast
qed

text \<open>
  Claim C7 says that a record built from a single quote carries the 24h change and the market
  cap of that quote. With a quote from CoinGecko alone (the fourth case of the test suite)
  the price, the source count 1, the confidence 60, the divergence 0 and the missing warning
  are as claimed (lemma \<open>crossVerify_one\<close> has them for every input), but the change and the
  market cap that the quote supplied are dropped. The branch for two quotes copies them.
\<close>

theorem single_coingecko_quote_loses_change_and_cap:
  "crossVerify [''ADA'' \<mapsto> cg_at (45 / 100)] Map.empty ''ADA'' =
     Some \<lparr> price = 45 / 100, prices = None, sources = 1, sourceNames = [''coingecko''],
            confidence = 60, divergenceBps = Fin 0, change24h = None, marketCap = None,
            warning = None, dataHash = None, asset = None, timestamp = None, iso = None \<rparr> \<and>
   cg_change24h (cg_at (45 / 100)) = Some 1 \<and>
   cg_marketCap (cg_at (45 / 100)) = Some 15000000000 \<and>
   (\<exists>r. crossVerify [''ADA'' \<mapsto> cg_at (45 / 100)] [''ADA'' \<mapsto> dl_at (45 / 100)] ''ADA'' = Some r \<and>
        change24h r = Some 1 \<and> marketCap r = Some 15000000000)"
  by (simp add: crossVerify_def single_source_def cg_at_def dl_at_def Let_def)

section \<open>Properties of the adapters and of one cycle\<close>

lemma fetchCoinGecko_fulfils: "\<exists>r. fetchCoinGecko assets up = Inr r"
  by (simp add: fetchCoinGecko_def Let_def split: sum.split)

lemma fetchDeFiLlama_fulfils: "\<exists>r. fetchDeFiLlama assets up = Inr r"
  by (simp add: fetchDeFiLlama_def Let_def split: sum.split)

lemma fetchFearGreed_fulfils: "\<exists>r. fetchFearGreed up = Inr r"
  by (simp add: fetchFearGreed_def split: sum.split)

lemma fetchTVL_fulfils: "\<exists>r. fetchTVL up = Inr r"
  by (simp add: fetchTVL_def split: sum.split)

lemma fetchStablecoins_fulfils: "\<exists>r. fetchStablecoins up = Inr r"
  by (simp add: fetchStablecoins_def split: sum.split)

lemma fetchGas_fulfils: "\<exists>r. fetchGas up = Inr r"
  by (simp add: fetchGas_def split: sum.split)

lemma getFullSnapshot_blocks:
  "\<exists>cg dl fg tv sc gs.
     fetchCoinGecko assets (coingecko_api c) = Inr cg \<and>
     fetchDeFiLlama assets (defillama_api c) = Inr dl \<and>
     fetchFearGreed (feargreed_api c) = Inr fg \<and>
     fetchTVL (tvl_api c) = Inr tv \<and>
     fetchStablecoins (stablecoins_api c) = Inr sc \<and>
     fetchGas (etherscan_api c) = Inr gs \<and>
     getFullSnapshot assets c =
       Inr \<lparr> s_timestamp = clock_stamp c div 1000, s_iso = ISO (clock_iso c),
             s_oracle = ''MoltOracle v1.0.0'', s_verification = ''cross-sourced'',
             s_prices = collect_prices cg dl assets,
             fearGreed = fg, tvl = tv, stablecoins = sc, gas = gs \<rparr>"
proof -
  obtain cg where 1: "fetchCoinGecko assets (coingecko_api c) = Inr cg"
    using fetchCoinGecko_fulfils by blast
  obtain dl where 2: "fetchDeFiLlama assets (defillama_api c) = Inr dl"
    using fetchDeFiLlama_fulfils by blast
  obtain fg where 3: "fetchFearGreed (feargreed_api c) = Inr fg"
    using fetchFearGreed_fulfils by blast
  obtain tv where 4: "fetchTVL (tvl_api c) = Inr tv"
    using fetchTVL_fulfils by blast
  obtain sc where 5: "fetchStablecoins (stablecoins_api c) = Inr sc"
    using fetchStablecoins_fulfils by blast
  obtain gs where 6: "fetchGas (etherscan_api c) = Inr gs"
    using fetchGas_fulfils by blast
  show ?thesis
    by (simp add: getFullSnapshot_def Promise_all6_def 1 2 3 4 5 6)
qed

lemma getFullSnapshot_fulfils: "\<exists>snap. getFullSnapshot assets c = Inr snap"
  using getFullSnapshot_blocks [of assets c] by blast

lemma collect_prices_nothing:
  "collect_prices Map.empty Map.empty assets = []"
proof -
  have "foldl (\<lambda>ps a. case crossVerify Map.empty Map.empty a of
                         None \<Rightarrow> ps | Some v \<Rightarrow> AList.update a v ps) ps0 assets = ps0" for ps0
    by (induction assets arbitrary: ps0) (simp_all add: crossVerify_def)
  then show ?thesis by (simp add: collect_prices_def)
qed

lemma map_of_collect_prices_gen:
  "map_of (foldl (\<lambda>ps a. case crossVerify cg dl a of None \<Rightarrow> ps | Some v \<Rightarrow> AList.update a v ps)
                 ps0 assets) k =
     (if k \<in> set assets
      then (case crossVerify cg dl k of None \<Rightarrow> map_of ps0 k | Some v \<Rightarrow> Some v)
      else map_of ps0 k)"
  by (induction assets arbitrary: ps0) (auto simp: update_conv' split: option.splits)

lemma map_of_collect_prices:
  "map_of (collect_prices cg dl assets) k = (if k \<in> set assets then crossVerify cg dl k else None)"
  by (simp add: collect_prices_def map_of_collect_prices_gen split: option.split)

lemma fetch_failure_degrades:
  "fetch up1 = Inl e \<Longrightarrow> fetchCoinGecko assets up1 = Inr Map.empty"
  "fetch up2 = Inl e \<Longrightarrow> fetchDeFiLlama assets up2 = Inr Map.empty"
  "fetch up3 = Inl e \<Longrightarrow> fetchFearGreed up3 = Inr None"
  "fetch up4 = Inl e \<Longrightarrow> fetchTVL up4 = Inr None"
  "fetch up5 = Inl e \<Longrightarrow> fetchStablecoins up5 = Inr None"
  "fetch up6 = Inl e \<Longrightarrow> fetchGas up6 = Inr None"
  by (simp_all add: fetchCoinGecko_def fetchDeFiLlama_def fetchFearGreed_def fetchTVL_def
        fetchStablecoins_def fetchGas_def Let_def)

lemma thrown_in_try_degrades:
  "cg_collect d1 = Inl e \<Longrightarrow> fetchCoinGecko assets (Json s1 d1) = Inr Map.empty"
  "dl_collect d2 = Inl e \<Longrightarrow> fetchDeFiLlama assets (Json s2 d2) = Inr Map.empty"
  "fg_build d3 = Inl e \<Longrightarrow> fetchFearGreed (Json s3 d3) = Inr None"
  "tvl_build d4 = Inl e \<Longrightarrow> fetchTVL (Json s4 d4) = Inr None"
  "sc_build d5 = Inl e \<Longrightarrow> fetchStablecoins (Json s5 d5) = Inr None"
  "gas_build d6 = Inl e \<Longrightarrow> fetchGas (Json s6 d6) = Inr None"
  by (simp_all add: fetchCoinGecko_def fetchDeFiLlama_def fetchFearGreed_def fetchTVL_def
        fetchStablecoins_def fetchGas_def fetch_def Let_def)

lemma shaped_body_is_served:
  "join (List.map_filter (map_of ids) assets) \<noteq> [] \<Longrightarrow> cg_collect d1 = Inr m1 \<Longrightarrow>
     fetchCoinGecko assets (Json s1 d1) = Inr m1"
  "join (List.map_filter (map_of llamaIds) assets) \<noteq> [] \<Longrightarrow> dl_collect d2 = Inr m2 \<Longrightarrow>
     fetchDeFiLlama assets (Json s2 d2) = Inr m2"
  "fg_build d3 = Inr v3 \<Longrightarrow> fetchFearGreed (Json s3 d3) = Inr (Some v3)"
  "tvl_build d4 = Inr v4 \<Longrightarrow> fetchTVL (Json s4 d4) = Inr (Some v4)"
  "sc_build d5 = Inr v5 \<Longrightarrow> fetchStablecoins (Json s5 d5) = Inr (Some v5)"
  "gas_build d6 = Inr v6 \<Longrightarrow> fetchGas (Json s6 d6) = Inr v6"
  by (simp_all add: fetchCoinGecko_def fetchDeFiLlama_def fetchFearGreed_def fetchTVL_def
        fetchStablecoins_def fetchGas_def fetch_def Let_def)

lemma gas_status_degrades:
  "gas_status b \<noteq> Some ''1'' \<Longrightarrow> fetchGas (Json s (Value b)) = Inr None"
  by (simp add: fetchGas_def fetch_def gas_build_def)

lemma promise_of_settled:
  "fetchCoinGecko_promise assets (Settles up1) = Some (fetchCoinGecko assets up1)"
  "fetchDeFiLlama_promise assets (Settles up2) = Some (fetchDeFiLlama assets up2)"
  "fetchFearGreed_promise (Settles up3) = Some (fetchFearGreed up3)"
  "fetchTVL_promise (Settles up4) = Some (fetchTVL up4)"
  "fetchStablecoins_promise (Settles up5) = Some (fetchStablecoins up5)"
  "fetchGas_promise (Settles up6) = Some (fetchGas up6)"
  by (simp_all add: fetchCoinGecko_promise_def fetchDeFiLlama_promise_def
        fetchFearGreed_promise_def fetchTVL_promise_def fetchStablecoins_promise_def
        fetchGas_promise_def awaited_def fetchCoinGecko_def fetchDeFiLlama_def Let_def)

lemma promise_pending:
  "(fetchCoinGecko_promise assets rq1 = None) =
     (rq1 = Stalls \<and> join (List.map_filter (map_of ids) assets) \<noteq> [])"
  "(fetchDeFiLlama_promise assets rq2 = None) =
     (rq2 = Stalls \<and> join (List.map_filter (map_of llamaIds) assets) \<noteq> [])"
  "(fetchFearGreed_promise rq3 = None) = (rq3 = Stalls)"
  "(fetchTVL_promise rq4 = None) = (rq4 = Stalls)"
  "(fetchStablecoins_promise rq5 = None) = (rq5 = Stalls)"
  "(fetchGas_promise rq6 = None) = (rq6 = Stalls)"
  by (simp_all add: fetchCoinGecko_promise_def fetchDeFiLlama_promise_def
        fetchFearGreed_promise_def fetchTVL_promise_def fetchStablecoins_promise_def
        fetchGas_promise_def awaited_def split: request.split)

lemma promise_fulfilled_or_pending:
  "\<exists>a. fetchCoinGecko_promise assets rq1 = map_option Inr a"
  "\<exists>a. fetchDeFiLlama_promise assets rq2 = map_option Inr a"
  "\<exists>a. fetchFearGreed_promise rq3 = map_option Inr a"
  "\<exists>a. fetchTVL_promise rq4 = map_option Inr a"
  "\<exists>a. fetchStablecoins_promise rq5 = map_option Inr a"
  "\<exists>a. fetchGas_promise rq6 = map_option Inr a"
proof -
  have s: "\<exists>a. awaited rq k = map_option Inr a" if h: "\<And>up. \<exists>r. k up = Inr r"
    for rq :: "'b request" and k :: "'b upstream \<Rightarrow> exn + 'r"
  proof (cases rq)
    case Stalls
    then have "awaited rq k = map_option Inr None" by (simp add: awaited_def)
    then show ?thesis by blast
  next
    case (Settles up)
    obtain r where "k up = Inr r" using h by blast
    with Settles have "awaited rq k = map_option Inr (Some r)" by (simp add: awaited_def)
    then show ?thesis by blast
  qed
  have e: "\<exists>a. Some (Inr v) = map_option Inr a" for v :: 'v
    by (rule exI [of _ "Some v"]) simp
  show "\<exists>a. fetchCoinGecko_promise assets rq1 = map_option Inr a"
    unfolding fetchCoinGecko_promise_def using s [OF fetchCoinGecko_fulfils] e by auto
  show "\<exists>a. fetchDeFiLlama_promise assets rq2 = map_option Inr a"
    unfolding fetchDeFiLlama_promise_def using s [OF fetchDeFiLlama_fulfils] e by auto
  show "\<exists>a. fetchFearGreed_promise rq3 = map_option Inr a"
    unfolding fetchFearGreed_promise_def by (rule s [OF fetchFearGreed_fulfils])
  show "\<exists>a. fetchTVL_promise rq4 = map_option Inr a"
    unfolding fetchTVL_promise_def by (rule s [OF fetchTVL_fulfils])
  show "\<exists>a. fetchStablecoins_promise rq5 = map_option Inr a"
    unfolding fetchStablecoins_promise_def by (rule s [OF fetchStablecoins_fulfils])
  show "\<exists>a. fetchGas_promise rq6 = map_option Inr a"
    unfolding fetchGas_promise_def by (rule s [OF fetchGas_fulfils])
qed

lemma promise_never_rejected:
  "fetchCoinGecko_promise assets rq1 \<noteq> Some (Inl e)"
  "fetchDeFiLlama_promise assets rq2 \<noteq> Some (Inl e)"
  "fetchFearGreed_promise rq3 \<noteq> Some (Inl e)"
  "fetchTVL_promise rq4 \<noteq> Some (Inl e)"
  "fetchStablecoins_promise rq5 \<noteq> Some (Inl e)"
  "fetchGas_promise rq6 \<noteq> Some (Inl e)"
proof -
  have n: "p \<noteq> Some (Inl e)" if "\<exists>a. p = map_option Inr a" for p :: "(exn + 'v) option"
    using that by (auto simp: map_option_case split: option.splits)
  show "fetchCoinGecko_promise assets rq1 \<noteq> Some (Inl e)"
    by (rule n [OF promise_fulfilled_or_pending(1)])
  show "fetchDeFiLlama_promise assets rq2 \<noteq> Some (Inl e)"
    by (rule n [OF promise_fulfilled_or_pending(2)])
  show "fetchFearGreed_promise rq3 \<noteq> Some (Inl e)"
    by (rule n [OF promise_fulfilled_or_pending(3)])
  show "fetchTVL_promise rq4 \<noteq> Some (Inl e)"
    by (rule n [OF promise_fulfilled_or_pending(4)])
  show "fetchStablecoins_promise rq5 \<noteq> Some (Inl e)"
    by (rule n [OF promise_fulfilled_or_pending(5)])
  show "fetchGas_promise rq6 \<noteq> Some (Inl e)"
    by (rule n [OF promise_fulfilled_or_pending(6)])
qed

lemma Promise_all6_pending_fulfilled:
  "Promise_all6_pending (map_option Inr a1) (map_option Inr a2) (map_option Inr a3)
     (map_option Inr a4) (map_option Inr a5) (map_option Inr a6) =
     (case (a1, a2, a3, a4, a5, a6) of
        (Some v1, Some v2, Some v3, Some v4, Some v5, Some v6) \<Rightarrow>
          Some (Inr (v1, v2, v3, v4, v5, v6))
      | _ \<Rightarrow> None)"
  by (cases a1; cases a2; cases a3; cases a4; cases a5; cases a6)
     (simp_all add: Promise_all6_pending_def rejection_def fulfilment_def List.map_filter_simps)

lemma getFullSnapshot_promise_cases:
  assumes "fetchCoinGecko_promise assets (coingecko_rq k) = map_option Inr a1"
    and "fetchDeFiLlama_promise assets (defillama_rq k) = map_option Inr a2"
    and "fetchFearGreed_promise (feargreed_rq k) = map_option Inr a3"
    and "fetchTVL_promise (tvl_rq k) = map_option Inr a4"
    and "fetchStablecoins_promise (stablecoins_rq k) = map_option Inr a5"
    and "fetchGas_promise (etherscan_rq k) = map_option Inr a6"
  shows "getFullSnapshot_promise assets k =
     (case (a1, a2, a3, a4, a5, a6) of
        (Some cg, Some dl, Some fg, Some tv, Some sc, Some gs) \<Rightarrow>
          Some (Inr \<lparr> s_timestamp = rq_stamp k div 1000, s_iso = ISO (rq_iso k),
                      s_oracle = ''MoltOracle v1.0.0'', s_verification = ''cross-sourced'',
                      s_prices = collect_prices cg dl assets,
                      fearGreed = fg, tvl = tv, stablecoins = sc, gas = gs \<rparr>)
      | _ \<Rightarrow> None)"
  unfolding getFullSnapshot_promise_def assms Promise_all6_pending_fulfilled
  by (simp split: option.splits)

lemma getFullSnapshot_promise_never_rejected:
  "getFullSnapshot_promise assets k \<noteq> Some (Inl e)"
proof -
  obtain a1 a2 a3 a4 a5 a6 where
    "fetchCoinGecko_promise assets (coingecko_rq k) = map_option Inr a1"
    "fetchDeFiLlama_promise assets (defillama_rq k) = map_option Inr a2"
    "fetchFearGreed_promise (feargreed_rq k) = map_option Inr a3"
    "fetchTVL_promise (tvl_rq k) = map_option Inr a4"
    "fetchStablecoins_promise (stablecoins_rq k) = map_option Inr a5"
    "fetchGas_promise (etherscan_rq k) = map_option Inr a6"
    using promise_fulfilled_or_pending by metis
  from getFullSnapshot_promise_cases [OF this]
  show ?thesis by (simp split: option.splits)
qed

lemma getFullSnapshot_promise_pending:
  "(getFullSnapshot_promise assets k = None) =
     (fetchCoinGecko_promise assets (coingecko_rq k) = None \<or>
      fetchDeFiLlama_promise assets (defillama_rq k) = None \<or>
      fetchFearGreed_promise (feargreed_rq k) = None \<or>
      fetchTVL_promise (tvl_rq k) = None \<or>
      fetchStablecoins_promise (stablecoins_rq k) = None \<or>
      fetchGas_promise (etherscan_rq k) = None)"
proof -
  obtain a1 a2 a3 a4 a5 a6 where a:
    "fetchCoinGecko_promise assets (coingecko_rq k) = map_option Inr a1"
    "fetchDeFiLlama_promise assets (defillama_rq k) = map_option Inr a2"
    "fetchFearGreed_promise (feargreed_rq k) = map_option Inr a3"
    "fetchTVL_promise (tvl_rq k) = map_option Inr a4"
    "fetchStablecoins_promise (stablecoins_rq k) = map_option Inr a5"
    "fetchGas_promise (etherscan_rq k) = map_option Inr a6"
    using promise_fulfilled_or_pending by metis
  show ?thesis
    unfolding getFullSnapshot_promise_cases [OF a] a
    by (simp split: option.splits)
qed

lemma getFullSnapshot_promise_blocks:
  assumes "getFullSnapshot_promise assets k = Some (Inr snap)"
  shows "\<exists>cg dl fg tv sc gs.
     fetchCoinGecko_promise assets (coingecko_rq k) = Some (Inr cg) \<and>
     fetchDeFiLlama_promise assets (defillama_rq k) = Some (Inr dl) \<and>
     fetchFearGreed_promise (feargreed_rq k) = Some (Inr fg) \<and>
     fetchTVL_promise (tvl_rq k) = Some (Inr tv) \<and>
     fetchStablecoins_promise (stablecoins_rq k) = Some (Inr sc) \<and>
     fetchGas_promise (etherscan_rq k) = Some (Inr gs) \<and>
     snap = \<lparr> s_timestamp = rq_stamp k div 1000, s_iso = ISO (rq_iso k),
              s_oracle = ''MoltOracle v1.0.0'', s_verification = ''cross-sourced'',
              s_prices = collect_prices cg dl assets,
              fearGreed = fg, tvl = tv, stablecoins = sc, gas = gs \<rparr>"
proof -
  obtain a1 a2 a3 a4 a5 a6 where a:
    "fetchCoinGecko_promise assets (coingecko_rq k) = map_option Inr a1"
    "fetchDeFiLlama_promise assets (defillama_rq k) = map_option Inr a2"
    "fetchFearGreed_promise (feargreed_rq k) = map_option Inr a3"
    "fetchTVL_promise (tvl_rq k) = map_option Inr a4"
    "fetchStablecoins_promise (stablecoins_rq k) = map_option Inr a5"
    "fetchGas_promise (etherscan_rq k) = map_option Inr a6"
    using promise_fulfilled_or_pending by metis
  from assms show ?thesis
    unfolding getFullSnapshot_promise_cases [OF a] a
    by (simp split: option.splits)
qed

lemma getFullSnapshot_promise_depends:
  assumes "getFullSnapshot_promise assets k = Some (Inr snap)"
    and "getFullSnapshot_promise assets k' = Some (Inr snap')"
  shows "coingecko_rq k' = coingecko_rq k \<and> defillama_rq k' = defillama_rq k \<longrightarrow>
           s_prices snap' = s_prices snap"
    and "feargreed_rq k' = feargreed_rq k \<longrightarrow> fearGreed snap' = fearGreed snap"
    and "tvl_rq k' = tvl_rq k \<longrightarrow> tvl snap' = tvl snap"
    and "stablecoins_rq k' = stablecoins_rq k \<longrightarrow> stablecoins snap' = stablecoins snap"
    and "etherscan_rq k' = etherscan_rq k \<longrightarrow> gas snap' = gas snap"
  using getFullSnapshot_promise_blocks [OF assms(1)] getFullSnapshot_promise_blocks [OF assms(2)]
  by auto

lemma getFullSnapshot_promise_settling:
  "getFullSnapshot_promise assets (settling c) = Some (getFullSnapshot assets c)"
proof -
  obtain cg dl fg tv sc gs where r:
    "fetchCoinGecko assets (coingecko_api c) = Inr cg"
    "fetchDeFiLlama assets (defillama_api c) = Inr dl"
    "fetchFearGreed (feargreed_api c) = Inr fg"
    "fetchTVL (tvl_api c) = Inr tv"
    "fetchStablecoins (stablecoins_api c) = Inr sc"
    "fetchGas (etherscan_api c) = Inr gs"
    using fetchCoinGecko_fulfils fetchDeFiLlama_fulfils fetchFearGreed_fulfils fetchTVL_fulfils
      fetchStablecoins_fulfils fetchGas_fulfils by metis
  show ?thesis
    by (simp add: getFullSnapshot_promise_def getFullSnapshot_def settling_def promise_of_settled
          r Promise_all6_def Promise_all6_pending_def rejection_def fulfilment_def
          List.map_filter_simps)
qed


text \<open>
  Claim C9 says that a non-success status of the provider makes every adapter return an empty
  or \<^verbatim>\<open>null\<close> result, and that every adapter returns one after a failure on the network. A
  response with status 503 whose body has the expected shape is served as data: the adapter
  of the fear and greed index returns the index it carries. And when the request to the gas
  oracle comes to no end, the adapter returns nothing at all, and neither does the cycle that
  waits for it.
\<close>

theorem served_despite_status_and_never_returning:
  "fetchFearGreed_promise
     (Settles (Json 503 (Value (Object
        \<lparr> fng_value = Some ''45'', value_classification = Some ''Fear'',
          fng_timestamp = Some ''1700000000'' \<rparr>)))) =
     Some (Inr (Some \<lparr> fg_value = Fin 45, fg_label = Some ''Fear'',
                       fg_timestamp = Fin 1700000000, fg_source = ''alternative.me'' \<rparr>)) \<and>
   fetchFearGreed_promise
     (Settles (Json 503 (Value (Object
        \<lparr> fng_value = Some ''45'', value_classification = Some ''Fear'',
          fng_timestamp = Some ''1700000000'' \<rparr>)))) \<noteq> Some (Inr None) \<and>
   fetchGas_promise Stalls = None \<and>
   fetchGas_promise Stalls \<noteq> Some (Inr None) \<and>
   getFullSnapshot_promise default_assets gas_stalls = None"
proof -
  have 1: "parseInt_of (Some ''45'') = Fin 45" by code_simp
  have 2: "parseInt_of (Some ''1700000000'') = Fin 1700000000" by code_simp
  have 3: "fetchGas_promise Stalls = None"
    by (simp add: fetchGas_promise_def awaited_def)
  have 4: "getFullSnapshot_promise default_assets gas_stalls = None"
    by (simp add: getFullSnapshot_promise_pending gas_stalls_def 3)
  show ?thesis
    by (simp add: 3 4 promise_of_settled fetchFearGreed_def fetch_def fg_build_def 1 2)
qed

text \<open>
  Claim C9 as the code has it. \<^verbatim>\<open>fetch\<close> stays pending when the request stalls, rejects
  when the connection fails or the body is not JSON, and resolves with the parsed body whatever
  the status code. No adapter promise is ever rejected, and neither is the promise of the
  cycle. A request that fails on the network or delivers a body that is not JSON makes
  its adapter return the empty object or \<^verbatim>\<open>null\<close>, and so does an exception thrown inside the
  \<^verbatim>\<open>try\<close> block by a body of the wrong shape. The HTTP status code is not read: a body of
  the expected shape is served whatever the status; the only status looked at is the member
  \<^verbatim>\<open>status\<close> of the gas oracle's body, and the gas adapter returns \<^verbatim>\<open>null\<close> unless it is
  \<^verbatim>\<open>'1'\<close>. An adapter stays pending exactly when the request it made comes to no end. The
  cycle waits for all six: it stays pending exactly when one of the adapters does, and
  otherwise returns the snapshot whose blocks are the six values, each block depending on the
  request to its own provider only (the prices on those to the two price providers).
\<close>

theorem adapters_never_reject_and_cycle_waits:
  "(\<forall>s b. fetch_promise Stalls = (None :: (exn + 'b) option) \<and>
          fetch_promise (Settles NoResponse) = (Some (Inl NetworkError) :: (exn + 'b) option) \<and>
          fetch_promise (Settles (NotJson s)) = (Some (Inl ParseError) :: (exn + 'b) option) \<and>
          fetch_promise (Settles (Json s b)) = (Some (Inr b) :: (exn + 'b) option)) \<and>
   (\<forall>e. fetchCoinGecko_promise assets (coingecko_rq k) \<noteq> Some (Inl e) \<and>
        fetchDeFiLlama_promise assets (defillama_rq k) \<noteq> Some (Inl e) \<and>
        fetchFearGreed_promise (feargreed_rq k) \<noteq> Some (Inl e) \<and>
        fetchTVL_promise (tvl_rq k) \<noteq> Some (Inl e) \<and>
        fetchStablecoins_promise (stablecoins_rq k) \<noteq> Some (Inl e) \<and>
        fetchGas_promise (etherscan_rq k) \<noteq> Some (Inl e) \<and>
        getFullSnapshot_promise assets k \<noteq> Some (Inl e)) \<and>
   (\<forall>s. (coingecko_rq k = Settles NoResponse \<or> coingecko_rq k = Settles (NotJson s) \<longrightarrow>
            fetchCoinGecko_promise assets (coingecko_rq k) = Some (Inr Map.empty)) \<and>
        (defillama_rq k = Settles NoResponse \<or> defillama_rq k = Settles (NotJson s) \<longrightarrow>
            fetchDeFiLlama_promise assets (defillama_rq k) = Some (Inr Map.empty)) \<and>
        (feargreed_rq k = Settles NoResponse \<or> feargreed_rq k = Settles (NotJson s) \<longrightarrow>
            fetchFearGreed_promise (feargreed_rq k) = Some (Inr None)) \<and>
        (tvl_rq k = Settles NoResponse \<or> tvl_rq k = Settles (NotJson s) \<longrightarrow>
            fetchTVL_promise (tvl_rq k) = Some (Inr None)) \<and>
        (stablecoins_rq k = Settles NoResponse \<or> stablecoins_rq k = Settles (NotJson s) \<longrightarrow>
            fetchStablecoins_promise (stablecoins_rq k) = Some (Inr None)) \<and>
        (etherscan_rq k = Settles NoResponse \<or> etherscan_rq k = Settles (NotJson s) \<longrightarrow>
            fetchGas_promise (etherscan_rq k) = Some (Inr None))) \<and>
   (\<forall>s e. (\<forall>d. coingecko_rq k = Settles (Json s d) \<and> cg_collect d = Inl e \<longrightarrow>
              fetchCoinGecko_promise assets (coingecko_rq k) = Some (Inr Map.empty)) \<and>
          (\<forall>d. defillama_rq k = Settles (Json s d) \<and> dl_collect d = Inl e \<longrightarrow>
              fetchDeFiLlama_promise assets (defillama_rq k) = Some (Inr Map.empty)) \<and>
          (\<forall>d. feargreed_rq k = Settles (Json s d) \<and> fg_build d = Inl e \<longrightarrow>
              fetchFearGreed_promise (feargreed_rq k) = Some (Inr None)) \<and>
          (\<forall>d. tvl_rq k = Settles (Json s d) \<and> tvl_build d = Inl e \<longrightarrow>
              fetchTVL_promise (tvl_rq k) = Some (Inr None)) \<and>
          (\<forall>d. stablecoins_rq k = Settles (Json s d) \<and> sc_build d = Inl e \<longrightarrow>
              fetchStablecoins_promise (stablecoins_rq k) = Some (Inr None)) \<and>
          (\<forall>d. etherscan_rq k = Settles (Json s d) \<and> gas_build d = Inl e \<longrightarrow>
              fetchGas_promise (etherscan_rq k) = Some (Inr None))) \<and>
   (\<forall>s. (\<forall>d m. coingecko_rq k = Settles (Json s d) \<and> cg_collect d = Inr m \<and>
                join (List.map_filter (map_of ids) assets) \<noteq> [] \<longrightarrow>
              fetchCoinGecko_promise assets (coingecko_rq k) = Some (Inr m)) \<and>
        (\<forall>d m. defillama_rq k = Settles (Json s d) \<and> dl_collect d = Inr m \<and>
                join (List.map_filter (map_of llamaIds) assets) \<noteq> [] \<longrightarrow>
              fetchDeFiLlama_promise assets (defillama_rq k) = Some (Inr m)) \<and>
        (\<forall>d v. feargreed_rq k = Settles (Json s d) \<and> fg_build d = Inr v \<longrightarrow>
              fetchFearGreed_promise (feargreed_rq k) = Some (Inr (Some v))) \<and>
        (\<forall>d v. tvl_rq k = Settles (Json s d) \<and> tvl_build d = Inr v \<longrightarrow>
              fetchTVL_promise (tvl_rq k) = Some (Inr (Some v))) \<and>
        (\<forall>d v. stablecoins_rq k = Settles (Json s d) \<and> sc_build d = Inr v \<longrightarrow>
              fetchStablecoins_promise (stablecoins_rq k) = Some (Inr (Some v))) \<and>
        (\<forall>d v. etherscan_rq k = Settles (Json s d) \<and> gas_build d = Inr v \<longrightarrow>
              fetchGas_promise (etherscan_rq k) = Some (Inr v))) \<and>
   (\<forall>s b. etherscan_rq k = Settles (Json s (Value b)) \<and> gas_status b \<noteq> Some ''1'' \<longrightarrow>
          fetchGas_promise (etherscan_rq k) = Some (Inr None)) \<and>
   ((fetchCoinGecko_promise assets (coingecko_rq k) = None) =
      (coingecko_rq k = Stalls \<and> join (List.map_filter (map_of ids) assets) \<noteq> [])) \<and>
   ((fetchDeFiLlama_promise assets (defillama_rq k) = None) =
      (defillama_rq k = Stalls \<and> join (List.map_filter (map_of llamaIds) assets) \<noteq> [])) \<and>
   ((fetchFearGreed_promise (feargreed_rq k) = None) = (feargreed_rq k = Stalls)) \<and>
   ((fetchTVL_promise (tvl_rq k) = None) = (tvl_rq k = Stalls)) \<and>
   ((fetchStablecoins_promise (stablecoins_rq k) = None) = (stablecoins_rq k = Stalls)) \<and>
   ((fetchGas_promise (etherscan_rq k) = None) = (etherscan_rq k = Stalls)) \<and>
   ((getFullSnapshot_promise assets k = None) =
      (fetchCoinGecko_promise assets (coingecko_rq k) = None \<or>
       fetchDeFiLlama_promise assets (defillama_rq k) = None \<or>
       fetchFearGreed_promise (feargreed_rq k) = None \<or>
       fetchTVL_promise (tvl_rq k) = None \<or>
       fetchStablecoins_promise (stablecoins_rq k) = None \<or>
       fetchGas_promise (etherscan_rq k) = None)) \<and>
   (\<forall>snap. getFullSnapshot_promise assets k = Some (Inr snap) \<longrightarrow>
      (\<exists>cg dl fg tv sc gs.
         fetchCoinGecko_promise assets (coingecko_rq k) = Some (Inr cg) \<and>
         fetchDeFiLlama_promise assets (defillama_rq k) = Some (Inr dl) \<and>
         fetchFearGreed_promise (feargreed_rq k) = Some (Inr fg) \<and>
         fetchTVL_promise (tvl_rq k) = Some (Inr tv) \<and>
         fetchStablecoins_promise (stablecoins_rq k) = Some (Inr sc) \<and>
         fetchGas_promise (etherscan_rq k) = Some (Inr gs) \<and>
         snap = \<lparr> s_timestamp = rq_stamp k div 1000, s_iso = ISO (rq_iso k),
                  s_oracle = ''MoltOracle v1.0.0'', s_verification = ''cross-sourced'',
                  s_prices = collect_prices cg dl assets,
                  fearGreed = fg, tvl = tv, stablecoins = sc, gas = gs \<rparr>)) \<and>
   (\<forall>k' snap snap'.
      getFullSnapshot_promise assets k = Some (Inr snap) \<and>
      getFullSnapshot_promise assets k' = Some (Inr snap') \<longrightarrow>
        (coingecko_rq k' = coingecko_rq k \<and> defillama_rq k' = defillama_rq k \<longrightarrow>
           s_prices snap' = s_prices snap) \<and>
        (feargreed_rq k' = feargreed_rq k \<longrightarrow> fearGreed snap' = fearGreed snap) \<and>
        (tvl_rq k' = tvl_rq k \<longrightarrow> tvl snap' = tvl snap) \<and>
        (stablecoins_rq k' = stablecoins_rq k \<longrightarrow> stablecoins snap' = stablecoins snap) \<and>
        (etherscan_rq k' = etherscan_rq k \<longrightarrow> gas snap' = gas snap))"
  apply (intro conjI)
  subgoal by (simp add: fetch_promise_def fetch_def)
  subgoal by (simp add: promise_never_rejected getFullSnapshot_promise_never_rejected)
  subgoal by (auto simp: promise_of_settled fetch_failure_degrades fetch_def)
  subgoal by (auto simp: promise_of_settled thrown_in_try_degrades)
  subgoal by (auto simp: promise_of_settled shaped_body_is_served)
  subgoal by (auto simp: promise_of_settled gas_status_degrades)
  subgoal by (rule promise_pending)
  subgoal by (rule promise_pending)
  subgoal by (rule promise_pending)
  subgoal by (rule promise_pending)
  subgoal by (rule promise_pending)
  subgoal by (rule promise_pending)
  subgoal by (rule getFullSnapshot_promise_pending)
  subgoal using getFullSnapshot_promise_blocks [of assets k] by blast
  subgoal using getFullSnapshot_promise_depends [of assets k] by blast
  done

text \<open>
  The concrete cycles: in \<open>outage\<close> every \<^verbatim>\<open>fetch\<close> rejects, in \<open>malformed\<close> every \<^verbatim>\<open>try\<close>
  block throws or the status member is refused, in \<open>troubled\<close> shaped bodies arrive under
  status codes of failure, and in \<open>all_stall\<close> and \<open>gas_stalls\<close> requests come to no end.
\<close>

theorem adapters_never_reject_and_cycle_waits_witness:
  "fetchCoinGecko_promise default_assets (coingecko_rq (settling outage)) = Some (Inr Map.empty) \<and>
   fetchDeFiLlama_promise default_assets (defillama_rq (settling outage)) = Some (Inr Map.empty) \<and>
   fetchFearGreed_promise (feargreed_rq (settling outage)) = Some (Inr None) \<and>
   fetchTVL_promise (tvl_rq (settling outage)) = Some (Inr None) \<and>
   fetchStablecoins_promise (stablecoins_rq (settling outage)) = Some (Inr None) \<and>
   fetchGas_promise (etherscan_rq (settling outage)) = Some (Inr None) \<and>
   fetchCoinGecko_promise default_assets (coingecko_rq (settling malformed)) =
     Some (Inr Map.empty) \<and>
   fetchDeFiLlama_promise default_assets (defillama_rq (settling malformed)) =
     Some (Inr Map.empty) \<and>
   fetchFearGreed_promise (feargreed_rq (settling malformed)) = Some (Inr None) \<and>
   fetchTVL_promise (tvl_rq (settling malformed)) = Some (Inr None) \<and>
   fetchStablecoins_promise (stablecoins_rq (settling malformed)) = Some (Inr None) \<and>
   fetchGas_promise (etherscan_rq (settling (malformed\<lparr> etherscan_api := Json 200 Null \<rparr>))) =
     Some (Inr None) \<and>
   fetchGas_promise (etherscan_rq (settling malformed)) = Some (Inr None) \<and>
   (\<exists>m. fetchCoinGecko_promise default_assets (coingecko_rq (settling troubled)) =
           Some (Inr m) \<and>
        m ''BTC'' = Some \<lparr> cg_price = 67000, cg_change24h = Some (- 23 / 10),
                           cg_marketCap = Some 1300000000000, cg_source = ''coingecko'' \<rparr>) \<and>
   (\<exists>m. fetchDeFiLlama_promise default_assets (defillama_rq (settling troubled)) =
           Some (Inr m) \<and>
        m ''BTC'' = Some \<lparr> dl_price = 67005, dl_confidence = 99 / 100,
                           dl_source = ''defillama'' \<rparr>) \<and>
   fetchFearGreed_promise (feargreed_rq (settling troubled)) =
     Some (Inr (Some \<lparr> fg_value = Fin 45, fg_label = Some ''Fear'',
                       fg_timestamp = Fin 1700000000, fg_source = ''alternative.me'' \<rparr>)) \<and>
   fetchTVL_promise (tvl_rq (settling troubled)) =
     Some (Inr (Some \<lparr> chains = [\<lparr> chain = Some ''Ethereum'', row_tvl = Some 50000000000 \<rparr>],
                       tvl_source = ''defillama'' \<rparr>)) \<and>
   fetchStablecoins_promise (stablecoins_rq (settling troubled)) =
     Some (Inr (Some \<lparr> stablecoin_rows =
                         [\<lparr> sc_name = Some ''Tether'', sc_symbol = Some ''USDT'',
                            sc_circulating = 0, sc_price = Some 1 \<rparr>],
                       sc_source = ''defillama'' \<rparr>)) \<and>
   fetchGas_promise (etherscan_rq (settling troubled)) =
     Some (Inr (Some \<lparr> low = NaN, standard = NaN, fast = NaN, gas_source = ''etherscan'' \<rparr>)) \<and>
   fetchCoinGecko_promise default_assets (coingecko_rq all_stall) = None \<and>
   fetchDeFiLlama_promise default_assets (defillama_rq all_stall) = None \<and>
   fetchFearGreed_promise (feargreed_rq all_stall) = None \<and>
   fetchTVL_promise (tvl_rq all_stall) = None \<and>
   fetchStablecoins_promise (stablecoins_rq all_stall) = None \<and>
   fetchGas_promise (etherscan_rq gas_stalls) = None \<and>
   getFullSnapshot_promise default_assets gas_stalls = None \<and>
   (\<exists>cg dl.
      fetchCoinGecko_promise default_assets (coingecko_rq (settling outage)) = Some (Inr cg) \<and>
      fetchDeFiLlama_promise default_assets (defillama_rq (settling outage)) = Some (Inr dl) \<and>
      collect_prices cg dl default_assets = []) \<and>
   (\<exists>snap snap'.
      getFullSnapshot_promise default_assets (settling outage) = Some (Inr snap) \<and>
      getFullSnapshot_promise default_assets (settling bitcoin_only) = Some (Inr snap') \<and>
      snap = \<lparr> s_timestamp = 1700000000, s_iso = ISO 1700000000124,
               s_oracle = ''MoltOracle v1.0.0'', s_verification = ''cross-sourced'',
               s_prices = [], fearGreed = None, tvl = None, stablecoins = None, gas = None \<rparr> \<and>
      fearGreed snap' = fearGreed snap \<and> tvl snap' = tvl snap \<and>
      stablecoins snap' = stablecoins snap \<and> gas snap' = gas snap)"
proof -
  note T = adapters_never_reject_and_cycle_waits
  note o = T [of default_assets "settling outage", THEN conjunct2]
  note m = T [of default_assets "settling malformed", THEN conjunct2]
  note g = T [of default_assets "settling (malformed\<lparr> etherscan_api := Json 200 Null \<rparr>)",
              THEN conjunct2]
  note t = T [of default_assets "settling troubled", THEN conjunct2]
  note a = T [of default_assets all_stall, THEN conjunct2]
  note s = T [of default_assets gas_stalls, THEN conjunct2]
  have ro: "coingecko_rq (settling outage) = Settles NoResponse"
    "defillama_rq (settling outage) = Settles (NotJson 502)"
    "feargreed_rq (settling outage) = Settles NoResponse"
    "tvl_rq (settling outage) = Settles (NotJson 200)"
    "stablecoins_rq (settling outage) = Settles NoResponse"
    "etherscan_rq (settling outage) = Settles (NotJson 503)"
    by (simp_all add: settling_def outage_def)
  note oB = o [THEN conjunct2, THEN conjunct1]
  have 1: "fetchCoinGecko_promise default_assets (coingecko_rq (settling outage)) =
             Some (Inr Map.empty)"
    "fetchDeFiLlama_promise default_assets (defillama_rq (settling outage)) =
       Some (Inr Map.empty)"
    "fetchFearGreed_promise (feargreed_rq (settling outage)) = Some (Inr None)"
    "fetchTVL_promise (tvl_rq (settling outage)) = Some (Inr None)"
    "fetchStablecoins_promise (stablecoins_rq (settling outage)) = Some (Inr None)"
    "fetchGas_promise (etherscan_rq (settling outage)) = Some (Inr None)"
    using oB [THEN spec, of 502] oB [THEN spec, of 200] oB [THEN spec, of 503] ro
    by simp_all
  have rm: "coingecko_rq (settling malformed) = Settles (Json 200 Null)"
    "defillama_rq (settling malformed) = Settles (Json 200 Null)"
    "feargreed_rq (settling malformed) = Settles (Json 200 (Value Absent))"
    "tvl_rq (settling malformed) = Settles (Json 200 (Value (Some [Some ethereum_chain, None])))"
    "stablecoins_rq (settling malformed) = Settles (Json 200 (Value None))"
    "etherscan_rq (settling malformed) =
       Settles (Json 200 (Value \<lparr> gas_status = Some ''0'', gas_result_of = Plain \<rparr>))"
    "etherscan_rq (settling (malformed\<lparr> etherscan_api := Json 200 Null \<rparr>)) =
       Settles (Json 200 Null)"
    by (simp_all add: settling_def malformed_def)
  have th: "cg_collect Null = Inl TypeError" "dl_collect Null = Inl TypeError"
    "fg_build (Value Absent) = Inl TypeError"
    "tvl_build (Value (Some [Some ethereum_chain, None])) = Inl TypeError"
    "sc_build (Value None) = Inl TypeError" "gas_build Null = Inl TypeError"
    by (simp_all add: cg_collect_def dl_collect_def fg_build_def tvl_build_def sc_build_def
          gas_build_def)
  note mC = m [THEN conjunct2, THEN conjunct2, THEN conjunct1, THEN spec, of 200,
               THEN spec, of TypeError]
  note gC = g [THEN conjunct2, THEN conjunct2, THEN conjunct1, THEN spec, of 200,
               THEN spec, of TypeError]
  have 2: "fetchCoinGecko_promise default_assets (coingecko_rq (settling malformed)) =
             Some (Inr Map.empty)"
    "fetchDeFiLlama_promise default_assets (defillama_rq (settling malformed)) =
       Some (Inr Map.empty)"
    "fetchFearGreed_promise (feargreed_rq (settling malformed)) = Some (Inr None)"
    "fetchTVL_promise (tvl_rq (settling malformed)) = Some (Inr None)"
    "fetchStablecoins_promise (stablecoins_rq (settling malformed)) = Some (Inr None)"
    using mC th rm(1-5) by simp_all
  have 3: "fetchGas_promise
             (etherscan_rq (settling (malformed\<lparr> etherscan_api := Json 200 Null \<rparr>))) =
             Some (Inr None)"
    using gC th(6) rm(7) by simp
  note mE = m [THEN conjunct2, THEN conjunct2, THEN conjunct2, THEN conjunct2, THEN conjunct1]
  have 4: "fetchGas_promise (etherscan_rq (settling malformed)) = Some (Inr None)"
    using mE rm(6) by simp
  let ?cgd = "Value [''bitcoin'' \<mapsto> \<lparr> usd = 67000, usd_24h_change = Some (- 23 / 10),
                                         usd_market_cap = Some 1300000000000 \<rparr>]"
  let ?dld = "Value (Some [''coingecko:bitcoin'' \<mapsto>
                             \<lparr> dle_price = 67005, dle_confidence = None \<rparr>])"
  have rt: "coingecko_rq (settling troubled) = Settles (Json 200 ?cgd)"
    "defillama_rq (settling troubled) = Settles (Json 404 ?dld)"
    "feargreed_rq (settling troubled) = Settles (Json 503 (Value (Object fear_45)))"
    "tvl_rq (settling troubled) = Settles (Json 500 (Value (Some [Some ethereum_chain])))"
    "stablecoins_rq (settling troubled) = Settles (Json 429 (Value (Some [Some tether])))"
    "etherscan_rq (settling troubled) =
       Settles (Json 200 (Value \<lparr> gas_status = Some ''1'', gas_result_of = Plain \<rparr>))"
    by (simp_all add: settling_def troubled_def bitcoin_only_def outage_def)
  have j: "join (List.map_filter (map_of ids) default_assets) \<noteq> []"
    "join (List.map_filter (map_of llamaIds) default_assets) \<noteq> []"
    by code_simp+
  obtain cgm where cgm: "cg_collect ?cgd = Inr cgm" by (simp add: cg_collect_def)
  obtain dlm where dlm: "dl_collect ?dld = Inr dlm" by (simp add: dl_collect_def)
  have "case cg_collect ?cgd of
          Inr m \<Rightarrow> m ''BTC'' = Some \<lparr> cg_price = 67000, cg_change24h = Some (- 23 / 10),
                     cg_marketCap = Some 1300000000000, cg_source = ''coingecko'' \<rparr>
        | Inl e \<Rightarrow> False"
    by code_simp
  then have cgb: "cgm ''BTC'' = Some \<lparr> cg_price = 67000, cg_change24h = Some (- 23 / 10),
                     cg_marketCap = Some 1300000000000, cg_source = ''coingecko'' \<rparr>"
    unfolding cgm by simp
  have "case dl_collect ?dld of
          Inr m \<Rightarrow> m ''BTC'' = Some \<lparr> dl_price = 67005, dl_confidence = 99 / 100,
                     dl_source = ''defillama'' \<rparr>
        | Inl e \<Rightarrow> False"
    by code_simp
  then have dlb: "dlm ''BTC'' = Some \<lparr> dl_price = 67005, dl_confidence = 99 / 100,
                     dl_source = ''defillama'' \<rparr>"
    unfolding dlm by simp
  have bu: "fg_build (Value (Object fear_45)) =
              Inr \<lparr> fg_value = Fin 45, fg_label = Some ''Fear'',
                    fg_timestamp = Fin 1700000000, fg_source = ''alternative.me'' \<rparr>"
    "tvl_build (Value (Some [Some ethereum_chain])) =
       Inr \<lparr> chains = [\<lparr> chain = Some ''Ethereum'', row_tvl = Some 50000000000 \<rparr>],
             tvl_source = ''defillama'' \<rparr>"
    "sc_build (Value (Some [Some tether])) =
       Inr \<lparr> stablecoin_rows =
               [\<lparr> sc_name = Some ''Tether'', sc_symbol = Some ''USDT'',
                  sc_circulating = 0, sc_price = Some 1 \<rparr>],
             sc_source = ''defillama'' \<rparr>"
    "gas_build (Value \<lparr> gas_status = Some ''1'', gas_result_of = Plain \<rparr>) =
       Inr (Some \<lparr> low = NaN, standard = NaN, fast = NaN, gas_source = ''etherscan'' \<rparr>)"
    by code_simp+
  note tD = t [THEN conjunct2, THEN conjunct2, THEN conjunct2, THEN conjunct1]
  have 5: "fetchCoinGecko_promise default_assets (coingecko_rq (settling troubled)) =
             Some (Inr cgm)"
    using tD [THEN spec, of 200, THEN conjunct1, THEN spec, of ?cgd, THEN spec, of cgm]
      rt(1) cgm j(1) by simp
  have 6: "fetchDeFiLlama_promise default_assets (defillama_rq (settling troubled)) =
             Some (Inr dlm)"
    using tD [THEN spec, of 404, THEN conjunct2, THEN conjunct1, THEN spec, of ?dld,
              THEN spec, of dlm]
      rt(2) dlm j(2) by simp
  have 7: "fetchFearGreed_promise (feargreed_rq (settling troubled)) =
     Some (Inr (Some \<lparr> fg_value = Fin 45, fg_label = Some ''Fear'',
                       fg_timestamp = Fin 1700000000, fg_source = ''alternative.me'' \<rparr>))"
    using tD [THEN spec, of 503, THEN conjunct2, THEN conjunct2, THEN conjunct1] rt(3) bu(1)
    by simp
  have 8: "fetchTVL_promise (tvl_rq (settling troubled)) =
     Some (Inr (Some \<lparr> chains = [\<lparr> chain = Some ''Ethereum'', row_tvl = Some 50000000000 \<rparr>],
                       tvl_source = ''defillama'' \<rparr>))"
    using tD [THEN spec, of 500, THEN conjunct2, THEN conjunct2, THEN conjunct2, THEN conjunct1]
      rt(4) bu(2)
    by simp
  have 9: "fetchStablecoins_promise (stablecoins_rq (settling troubled)) =
     Some (Inr (Some \<lparr> stablecoin_rows =
                         [\<lparr> sc_name = Some ''Tether'', sc_symbol = Some ''USDT'',
                            sc_circulating = 0, sc_price = Some 1 \<rparr>],
                       sc_source = ''defillama'' \<rparr>))"
    using tD [THEN spec, of 429, THEN conjunct2, THEN conjunct2, THEN conjunct2, THEN conjunct2,
              THEN conjunct1]
      rt(5) bu(3)
    by simp
  have 10: "fetchGas_promise (etherscan_rq (settling troubled)) =
     Some (Inr (Some \<lparr> low = NaN, standard = NaN, fast = NaN, gas_source = ''etherscan'' \<rparr>))"
    using tD [THEN spec, of 200, THEN conjunct2, THEN conjunct2, THEN conjunct2, THEN conjunct2,
              THEN conjunct2]
      rt(6) bu(4)
    by simp
  have ra: "coingecko_rq all_stall = Stalls" "defillama_rq all_stall = Stalls"
    "feargreed_rq all_stall = Stalls" "tvl_rq all_stall = Stalls"
    "stablecoins_rq all_stall = Stalls" "etherscan_rq gas_stalls = Stalls"
    by (simp_all add: all_stall_def gas_stalls_def)
  note aF = a [THEN conjunct2, THEN conjunct2, THEN conjunct2, THEN conjunct2, THEN conjunct2]
  note sF = s [THEN conjunct2, THEN conjunct2, THEN conjunct2, THEN conjunct2, THEN conjunct2]
  have 11: "fetchCoinGecko_promise default_assets (coingecko_rq all_stall) = None"
    using aF [THEN conjunct1] ra(1) j(1) by simp
  have 12: "fetchDeFiLlama_promise default_assets (defillama_rq all_stall) = None"
    using aF [THEN conjunct2, THEN conjunct1] ra(2) j(2) by simp
  have 13: "fetchFearGreed_promise (feargreed_rq all_stall) = None"
    using aF [THEN conjunct2, THEN conjunct2, THEN conjunct1] ra(3) by simp
  have 14: "fetchTVL_promise (tvl_rq all_stall) = None"
    using aF [THEN conjunct2, THEN conjunct2, THEN conjunct2, THEN conjunct1] ra(4) by simp
  have 15: "fetchStablecoins_promise (stablecoins_rq all_stall) = None"
    using aF [THEN conjunct2, THEN conjunct2, THEN conjunct2, THEN conjunct2, THEN conjunct1]
      ra(5) by simp
  note sG = sF [THEN conjunct2, THEN conjunct2, THEN conjunct2, THEN conjunct2, THEN conjunct2]
  have 16: "fetchGas_promise (etherscan_rq gas_stalls) = None"
    using sG [THEN conjunct1] ra(6) by simp
  have 17: "getFullSnapshot_promise default_assets gas_stalls = None"
    using sG [THEN conjunct2, THEN conjunct1] 16 by simp
  note oG = o [THEN conjunct2, THEN conjunct2, THEN conjunct2, THEN conjunct2, THEN conjunct2,
               THEN conjunct2, THEN conjunct2, THEN conjunct2, THEN conjunct2, THEN conjunct2,
               THEN conjunct2]
  let ?d = "\<lparr> s_timestamp = 1700000000, s_iso = ISO 1700000000124,
              s_oracle = ''MoltOracle v1.0.0'', s_verification = ''cross-sourced'',
              s_prices = [], fearGreed = None, tvl = None, stablecoins = None, gas = None \<rparr>"
  have e: "getFullSnapshot_promise default_assets (settling outage) = Some (Inr ?d)"
    by code_simp
  have b: "case getFullSnapshot_promise default_assets (settling bitcoin_only) of
             Some (Inr x) \<Rightarrow> True | _ \<Rightarrow> False"
    by code_simp
  then obtain snap' where
    b': "getFullSnapshot_promise default_assets (settling bitcoin_only) = Some (Inr snap')"
    by (auto split: option.splits sum.splits)
  have rb: "feargreed_rq (settling bitcoin_only) = feargreed_rq (settling outage)"
    "tvl_rq (settling bitcoin_only) = tvl_rq (settling outage)"
    "stablecoins_rq (settling bitcoin_only) = stablecoins_rq (settling outage)"
    "etherscan_rq (settling bitcoin_only) = etherscan_rq (settling outage)"
    by (simp_all add: settling_def bitcoin_only_def)
  have 18: "\<exists>snap snap'.
      getFullSnapshot_promise default_assets (settling outage) = Some (Inr snap) \<and>
      getFullSnapshot_promise default_assets (settling bitcoin_only) = Some (Inr snap') \<and>
      snap = \<lparr> s_timestamp = 1700000000, s_iso = ISO 1700000000124,
               s_oracle = ''MoltOracle v1.0.0'', s_verification = ''cross-sourced'',
               s_prices = [], fearGreed = None, tvl = None, stablecoins = None, gas = None \<rparr> \<and>
      fearGreed snap' = fearGreed snap \<and> tvl snap' = tvl snap \<and>
      stablecoins snap' = stablecoins snap \<and> gas snap' = gas snap"
    using oG [THEN conjunct2, THEN conjunct2, THEN spec, of "settling bitcoin_only",
              THEN spec, of ?d, THEN spec, of snap', THEN mp, OF conjI, OF e b'] e b' rb
    by simp
  have 21: "\<exists>cg dl.
      fetchCoinGecko_promise default_assets (coingecko_rq (settling outage)) = Some (Inr cg) \<and>
      fetchDeFiLlama_promise default_assets (defillama_rq (settling outage)) = Some (Inr dl) \<and>
      collect_prices cg dl default_assets = []"
    using oG [THEN conjunct2, THEN conjunct1, THEN spec, of ?d, THEN mp, OF e] by auto
  from 5 cgb have 19: "\<exists>m. fetchCoinGecko_promise default_assets (coingecko_rq (settling troubled)) =
           Some (Inr m) \<and>
        m ''BTC'' = Some \<lparr> cg_price = 67000, cg_change24h = Some (- 23 / 10),
                           cg_marketCap = Some 1300000000000, cg_source = ''coingecko'' \<rparr>"
    by blast
  from 6 dlb have 20: "\<exists>m. fetchDeFiLlama_promise default_assets (defillama_rq (settling troubled)) =
           Some (Inr m) \<and>
        m ''BTC'' = Some \<lparr> dl_price = 67005, dl_confidence = 99 / 100,
                           dl_source = ''defillama'' \<rparr>"
    by blast
  show ?thesis
    using 1 2 3 4 19 20 7 8 9 10 11 12 13 14 15 16 17 21 18 by (intro conjI)
qed

section \<open>Properties of the rate limiter\<close>

lemma checkRateLimit_frame:
  assumes "checkRateLimit l st ip now = (b, st')"
  shows "heap st' = heap st" and "heap_next st' = heap_next st"
    and "cache st' = cache st" and "cacheTime st' = cacheTime st"
  using assms by (auto simp: checkRateLimit_def Let_def split: if_splits)

lemma checkRateLimit_cases:
  fixes q :: int
  assumes "kept = filter (\<lambda>t. now - window < t) (case rateLimits st ip of None \<Rightarrow> [] | Some ts \<Rightarrow> ts)"
  shows "q \<le> int (length kept) \<Longrightarrow>
           checkRateLimit (Fin q) st ip now = (False, st\<lparr> rateLimits := (rateLimits st)(ip \<mapsto> kept) \<rparr>)"
    and "int (length kept) < q \<Longrightarrow>
           checkRateLimit (Fin q) st ip now = (True, st\<lparr> rateLimits := (rateLimits st)(ip \<mapsto> kept @ [now]) \<rparr>)"
  by (simp_all add: checkRateLimit_def assms js_ge_def Let_def)

lemma calls_at_all_admitted:
  assumes "\<forall>t\<in>set ts. t \<le> T \<and> T - window < t"
    and "\<forall>x\<in>set rec. T - window < x"
    and "int (length rec) + int (length ts) \<le> q"
    and "(case rateLimits st ip of None \<Rightarrow> [] | Some r \<Rightarrow> r) = rec"
  shows "\<exists>st'. calls_at (Fin q) st ip ts = (replicate (length ts) True, st') \<and>
               (case rateLimits st' ip of None \<Rightarrow> [] | Some r \<Rightarrow> r) = rec @ ts"
  using assms
proof (induction ts arbitrary: st rec)
  case Nil
  then show ?case by simp
next
  case (Cons t ts)
  have keep: "filter (\<lambda>x. t - window < x) rec = rec"
    using Cons.prems(1,2) by (auto simp: filter_id_conv)
  have k: "rec = filter (\<lambda>x. t - window < x)
               (case rateLimits st ip of None \<Rightarrow> [] | Some r \<Rightarrow> r)"
    using Cons.prems(4) keep by simp
  have lt: "int (length rec) < q"
    using Cons.prems(3) by simp
  let ?st1 = "st\<lparr> rateLimits := (rateLimits st)(ip \<mapsto> rec @ [t]) \<rparr>"
  have step: "checkRateLimit (Fin q) st ip t = (True, ?st1)"
    by (rule checkRateLimit_cases(2) [OF k lt])
  have "\<exists>st'. calls_at (Fin q) ?st1 ip ts = (replicate (length ts) True, st') \<and>
               (case rateLimits st' ip of None \<Rightarrow> [] | Some r \<Rightarrow> r) = (rec @ [t]) @ ts"
  proof (rule Cons.IH)
    show "\<forall>t\<in>set ts. t \<le> T \<and> T - window < t" using Cons.prems(1) by simp
    show "\<forall>x\<in>set (rec @ [t]). T - window < x" using Cons.prems(1,2) by auto
    show "int (length (rec @ [t])) + int (length ts) \<le> q" using Cons.prems(3) by simp
    show "(case rateLimits ?st1 ip of None \<Rightarrow> [] | Some r \<Rightarrow> r) = rec @ [t]" by simp
  qed
  then show ?case using step by auto
qed

lemma RATE_LIMIT_default: "env_RATE_LIMIT pf = None \<Longrightarrow> RATE_LIMIT pf = Fin 30"
  by (simp add: RATE_LIMIT_def) code_simp

text \<open>A client without a record is admitted under the default quota.\<close>

lemma admitted_first:
  "fst (checkRateLimit (Fin 30) init_server ip now)"
  by (simp add: checkRateLimit_def init_server_def js_ge_def)

text \<open>
  Claim C5. The window is one hour. For every client, a call at time \<open>now\<close> first keeps of the
  client's timestamps those younger than one hour (\<open>kept\<close>), so that none older than one hour
  is left (one that is exactly one hour old goes as well). With a quota \<open>q\<close>, the call is
  rejected when \<open>kept\<close> holds at least \<open>q\<close> timestamps, and then \<open>kept\<close> is stored without the
  attempt; otherwise \<open>now\<close> is appended and the call is admitted. Hence a new client that calls
  \<open>q\<close> times within one hour is admitted each time, its next call within that hour is
  rejected, and once an hour has passed since all of those calls a call is admitted again.
\<close>

theorem checkRateLimit_sliding_window:
  fixes q :: int
  shows
  "window = 3600000 \<and>
   (\<forall>kept. kept = filter (\<lambda>t. now - window < t)
                        (case rateLimits st ip of None \<Rightarrow> [] | Some ts \<Rightarrow> ts) \<longrightarrow>
      (\<forall>t. t < now - window \<longrightarrow> t \<notin> set kept) \<and>
      (q \<le> int (length kept) \<longrightarrow>
         checkRateLimit (Fin q) st ip now =
           (False, st\<lparr> rateLimits := (rateLimits st)(ip \<mapsto> kept) \<rparr>)) \<and>
      (int (length kept) < q \<longrightarrow>
         checkRateLimit (Fin q) st ip now =
           (True, st\<lparr> rateLimits := (rateLimits st)(ip \<mapsto> kept @ [now]) \<rparr>))) \<and>
   (rateLimits st ip = None \<and> int (length ts) = q \<and>
    (\<forall>t\<in>set ts. t \<le> now \<and> now - window < t) \<longrightarrow>
      (\<exists>st1 st2. calls_at (Fin q) st ip ts = (replicate (length ts) True, st1) \<and>
                 checkRateLimit (Fin q) st1 ip now = (False, st2) \<and>
                 (\<forall>later. 0 < q \<and> (\<forall>t\<in>set ts. t + window \<le> later) \<longrightarrow>
                    fst (checkRateLimit (Fin q) st2 ip later) = True)))"
proof (intro conjI allI impI)
  show "window = 3600000" by (simp add: window_def)
next
  fix kept t
  assume "kept = filter (\<lambda>t. now - window < t)
                   (case rateLimits st ip of None \<Rightarrow> [] | Some ts \<Rightarrow> ts)"
    and "t < now - window"
  then show "t \<notin> set kept" by auto
next
  fix kept
  assume k: "kept = filter (\<lambda>t. now - window < t)
                   (case rateLimits st ip of None \<Rightarrow> [] | Some ts \<Rightarrow> ts)"
    and "q \<le> int (length kept)"
  then show "checkRateLimit (Fin q) st ip now =
           (False, st\<lparr> rateLimits := (rateLimits st)(ip \<mapsto> kept) \<rparr>)"
    by (rule checkRateLimit_cases(1))
next
  fix kept
  assume k: "kept = filter (\<lambda>t. now - window < t)
                   (case rateLimits st ip of None \<Rightarrow> [] | Some ts \<Rightarrow> ts)"
    and "int (length kept) < q"
  then show "checkRateLimit (Fin q) st ip now =
           (True, st\<lparr> rateLimits := (rateLimits st)(ip \<mapsto> kept @ [now]) \<rparr>)"
    by (rule checkRateLimit_cases(2))
next
  assume a: "rateLimits st ip = None \<and> int (length ts) = q \<and>
    (\<forall>t\<in>set ts. t \<le> now \<and> now - window < t)"
  have "\<exists>st'. calls_at (Fin q) st ip ts = (replicate (length ts) True, st') \<and>
               (case rateLimits st' ip of None \<Rightarrow> [] | Some r \<Rightarrow> r) = [] @ ts"
    by (rule calls_at_all_admitted) (use a in auto)
  then obtain st1 where run: "calls_at (Fin q) st ip ts = (replicate (length ts) True, st1)"
    and rec: "(case rateLimits st1 ip of None \<Rightarrow> [] | Some r \<Rightarrow> r) = ts"
    by auto
  have keep: "filter (\<lambda>t. now - window < t) ts = ts"
    using a by (auto simp: filter_id_conv)
  let ?st2 = "st1\<lparr> rateLimits := (rateLimits st1)(ip \<mapsto> ts) \<rparr>"
  have rej: "checkRateLimit (Fin q) st1 ip now = (False, ?st2)"
    by (rule checkRateLimit_cases(1)) (use a rec keep in auto)
  have again: "\<forall>later. 0 < q \<and> (\<forall>t\<in>set ts. t + window \<le> later) \<longrightarrow>
                    fst (checkRateLimit (Fin q) ?st2 ip later) = True"
  proof (intro allI impI)
    fix later
    assume l: "0 < q \<and> (\<forall>t\<in>set ts. t + window \<le> later)"
    then have "filter (\<lambda>t. later - window < t) ts = []"
      by (fastforce simp: filter_empty_conv)
    then have e: "[] = filter (\<lambda>t. later - window < t)
                     (case rateLimits ?st2 ip of None \<Rightarrow> [] | Some r \<Rightarrow> r)"
      by simp
    from checkRateLimit_cases(2) [OF e] l
    show "fst (checkRateLimit (Fin q) ?st2 ip later) = True" by simp
  qed
  from run rej again
  show "\<exists>st1 st2. calls_at (Fin q) st ip ts = (replicate (length ts) True, st1) \<and>
                 checkRateLimit (Fin q) st1 ip now = (False, st2) \<and>
                 (\<forall>later. 0 < q \<and> (\<forall>t\<in>set ts. t + window \<le> later) \<longrightarrow>
                    fst (checkRateLimit (Fin q) st2 ip later) = True)"
    by blast
qed

text \<open>
  A quota of two: a client whose record holds one live timestamp is admitted, one whose record
  holds two is rejected, and a new client is rejected on the third call and admitted an hour
  after the second.
\<close>

theorem checkRateLimit_sliding_window_witness:
  "checkRateLimit (Fin 2) (init_server\<lparr> rateLimits := [''10.0.0.1'' \<mapsto> [- 3600000, 1000]] \<rparr>)
       ''10.0.0.1'' 3000 =
     (True, init_server\<lparr> rateLimits := [''10.0.0.1'' \<mapsto> [1000, 3000]] \<rparr>) \<and>
   checkRateLimit (Fin 2) (init_server\<lparr> rateLimits := [''10.0.0.1'' \<mapsto> [- 3600000, 1000, 2000]] \<rparr>)
       ''10.0.0.1'' 3000 =
     (False, init_server\<lparr> rateLimits := [''10.0.0.1'' \<mapsto> [1000, 2000]] \<rparr>) \<and>
   (\<exists>st1 st2. calls_at (Fin 2) init_server ''10.0.0.1'' [1000, 2000] = ([True, True], st1) \<and>
              checkRateLimit (Fin 2) st1 ''10.0.0.1'' 3000 = (False, st2) \<and>
              fst (checkRateLimit (Fin 2) st2 ''10.0.0.1'' 3602000) = True)"
proof -
  let ?ip = "''10.0.0.1''"
  let ?a = "init_server\<lparr> rateLimits := [?ip \<mapsto> [- 3600000, 1000]] \<rparr>"
  let ?b = "init_server\<lparr> rateLimits := [?ip \<mapsto> [- 3600000, 1000, 2000]] \<rparr>"
  have 1: "checkRateLimit (Fin 2) ?a ?ip 3000 =
             (True, init_server\<lparr> rateLimits := [?ip \<mapsto> [1000, 3000]] \<rparr>)"
    using checkRateLimit_sliding_window [of 3000 ?a ?ip 2 "[]"]
    by (simp add: window_def)
  have 2: "checkRateLimit (Fin 2) ?b ?ip 3000 =
             (False, init_server\<lparr> rateLimits := [?ip \<mapsto> [1000, 2000]] \<rparr>)"
    using checkRateLimit_sliding_window [of 3000 ?b ?ip 2 "[]"]
    by (simp add: window_def)
  have 3: "\<exists>st1 st2. calls_at (Fin 2) init_server ?ip [1000, 2000] = ([True, True], st1) \<and>
              checkRateLimit (Fin 2) st1 ?ip 3000 = (False, st2) \<and>
              fst (checkRateLimit (Fin 2) st2 ?ip 3602000) = True"
  proof -
    have h: "rateLimits init_server ?ip = None \<and> int (length [1000, 2000 :: int]) = 2 \<and>
             (\<forall>t\<in>set [1000, 2000 :: int]. t \<le> 3000 \<and> 3000 - window < t)"
      by (simp add: init_server_def window_def)
    from checkRateLimit_sliding_window [of 3000 init_server ?ip 2 "[1000, 2000]"] h
    obtain st1 st2 where
      r: "calls_at (Fin 2) init_server ?ip [1000, 2000] = (replicate (length [1000, 2000 :: int]) True, st1)"
      and j: "checkRateLimit (Fin 2) st1 ?ip 3000 = (False, st2)"
      and l: "\<forall>later. 0 < (2 :: int) \<and> (\<forall>t\<in>set [1000, 2000 :: int]. t + window \<le> later) \<longrightarrow>
                    fst (checkRateLimit (Fin 2) st2 ?ip later) = True"
      by blast
    have "fst (checkRateLimit (Fin 2) st2 ?ip 3602000) = True"
      using l by (simp add: window_def)
    with r j show ?thesis
      by (auto simp: numeral_2_eq_2)
  qed
  from 1 2 3 show ?thesis by blast
qed

section \<open>Properties of the cache\<close>

lemma getCachedSnapshot_hit:
  assumes "cache st = Some r" and "now_check w - cacheTime st < CACHE_TTL"
  shows "getCachedSnapshot st w = (Inr r, st)"
  using assms by (simp add: getCachedSnapshot_def)

lemma getCachedSnapshot_miss:
  assumes "cache st = None \<or> CACHE_TTL \<le> now_check w - cacheTime st"
    and "getFullSnapshot default_assets (fanout w) = Inr snap"
  shows "getCachedSnapshot st w =
           (Inr (heap_next st),
            st\<lparr> heap := (heap st)(heap_next st \<mapsto> snap), heap_next := Suc (heap_next st),
                cache := Some (heap_next st), cacheTime := now_stored w \<rparr>)"
  using assms by (auto simp: getCachedSnapshot_def)

lemma getCachedSnapshot_valid:
  assumes "heap_ok st"
  shows "\<exists>r st' data. getCachedSnapshot st w = (Inr r, st') \<and> heap st' r = Some data \<and> heap_ok st'"
proof (cases "cache st = None \<or> CACHE_TTL \<le> now_check w - cacheTime st")
  case True
  obtain snap where "getFullSnapshot default_assets (fanout w) = Inr snap"
    using getFullSnapshot_fulfils by blast
  from getCachedSnapshot_miss [OF True this] show ?thesis
    by (simp add: heap_ok_def)
next
  case False
  then obtain r where r: "cache st = Some r" and t: "now_check w - cacheTime st < CACHE_TTL"
    by auto
  from assms r obtain data where "heap st r = Some data"
    by (auto simp: heap_ok_def)
  with getCachedSnapshot_hit [OF r t] assms show ?thesis by simp
qed

lemma getCachedSnapshot_ref:
  assumes "getCachedSnapshot st w = (Inr r, st')"
  shows "cache st' = Some r"
  using assms
  by (auto simp: getCachedSnapshot_def split: option.splits sum.splits if_splits)

text \<open>
  Claim C4. The time-to-live is 60000 milliseconds. Called while a snapshot is cached whose
  age is below it, \<^verbatim>\<open>getCachedSnapshot\<close> returns the reference in the cache and leaves the whole
  state as it was, whatever the providers would have answered: no aggregation cycle runs.
  Called with an empty cache, or with a cached snapshot whose age has reached the
  time-to-live, it runs one aggregation cycle, which always yields a snapshot (its requests
  coming to an end), stores the new object and the time of storing in the cache slot, and
  returns the reference to that object.
\<close>

theorem getCachedSnapshot_contract:
  "CACHE_TTL = 60000 \<and>
   (\<forall>r. cache st = Some r \<and> now_check w - cacheTime st < CACHE_TTL \<longrightarrow>
        getCachedSnapshot st w = (Inr r, st)) \<and>
   (cache st = None \<or> CACHE_TTL \<le> now_check w - cacheTime st \<longrightarrow>
      (\<exists>snap. getFullSnapshot default_assets (fanout w) = Inr snap \<and>
              getCachedSnapshot st w =
                (Inr (heap_next st),
                 st\<lparr> heap := (heap st)(heap_next st \<mapsto> snap), heap_next := Suc (heap_next st),
                     cache := Some (heap_next st), cacheTime := now_stored w \<rparr>)))"
proof -
  have "cache st = None \<or> CACHE_TTL \<le> now_check w - cacheTime st \<longrightarrow>
      (\<exists>snap. getFullSnapshot default_assets (fanout w) = Inr snap \<and>
              getCachedSnapshot st w =
                (Inr (heap_next st),
                 st\<lparr> heap := (heap st)(heap_next st \<mapsto> snap), heap_next := Suc (heap_next st),
                     cache := Some (heap_next st), cacheTime := now_stored w \<rparr>))"
  proof
    assume m: "cache st = None \<or> CACHE_TTL \<le> now_check w - cacheTime st"
    obtain snap where s: "getFullSnapshot default_assets (fanout w) = Inr snap"
      using getFullSnapshot_fulfils by blast
    from getCachedSnapshot_miss [OF m s] s
    show "\<exists>snap. getFullSnapshot default_assets (fanout w) = Inr snap \<and>
              getCachedSnapshot st w =
                (Inr (heap_next st),
                 st\<lparr> heap := (heap st)(heap_next st \<mapsto> snap), heap_next := Suc (heap_next st),
                     cache := Some (heap_next st), cacheTime := now_stored w \<rparr>)"
      by blast
  qed
  then show ?thesis
    by (simp add: CACHE_TTL_def getCachedSnapshot_hit)
qed

text \<open>
  From the initial state the first request fills the cache; a request thirty seconds later is
  answered from it.
\<close>

theorem getCachedSnapshot_contract_witness:
  "cache init_server = None \<and>
   fst (getCachedSnapshot init_server first_request) = Inr 0 \<and>
   (\<exists>snap. getFullSnapshot default_assets bitcoin_only = Inr snap \<and>
           heap (snd (getCachedSnapshot init_server first_request)) 0 = Some snap) \<and>
   cache (snd (getCachedSnapshot init_server first_request)) = Some 0 \<and>
   cacheTime (snd (getCachedSnapshot init_server first_request)) = 1700000000200 \<and>
   now_check later_request - 1700000000200 < CACHE_TTL \<and>
   getCachedSnapshot (snd (getCachedSnapshot init_server first_request)) later_request =
     (Inr 0, snd (getCachedSnapshot init_server first_request))"
proof -
  let ?st = "snd (getCachedSnapshot init_server first_request)"
  have a: "cache init_server = None" by (simp add: init_server_def)
  from getCachedSnapshot_contract [of init_server first_request] a
  obtain snap where 1: "getFullSnapshot default_assets bitcoin_only = Inr snap"
    and 2: "getCachedSnapshot init_server first_request =
         (Inr 0, init_server\<lparr> heap := [0 \<mapsto> snap], heap_next := 1, cache := Some 0,
                               cacheTime := 1700000000200 \<rparr>)"
    by (auto simp: init_server_def first_request_def)
  have b: "cache ?st = Some 0 \<and> now_check later_request - cacheTime ?st < CACHE_TTL"
    by (simp add: 2 later_request_def CACHE_TTL_def)
  from getCachedSnapshot_contract [of ?st later_request] b
  have 3: "getCachedSnapshot ?st later_request = (Inr 0, ?st)"
    by blast
  show ?thesis using a 1 3 by (simp add: 2 CACHE_TTL_def later_request_def)
qed

section \<open>Properties of the routes\<close>

lemma get_snapshot_admitted:
  assumes "checkRateLimit (RATE_LIMIT pf) st ip (now_limit w) = (True, st1)"
    and "getCachedSnapshot st1 w = (Inr r, st2)" and "heap st2 r = Some data"
  shows "get_snapshot pf st ip w =
           (Snapshot200 (attach_hashes pf data),
            st2\<lparr> heap := (heap st2)(r \<mapsto> attach_hashes pf data) \<rparr>)"
  using assms by (simp add: get_snapshot_def)

lemma attach_hashes_nothing:
  "s_prices snap = [] \<Longrightarrow> attach_hashes pf snap = snap"
  by (simp add: attach_hashes_def)

text \<open>
  Claim C10. For every combination of adapter outcomes \<^verbatim>\<open>getFullSnapshot\<close> returns the
  snapshot that is stamped with the clock in whole seconds and with the ISO string of the
  instant, whose price mapping is the one reconciled from the results of the two price
  adapters (and nothing else), and whose four domain blocks are the results of the four
  domain adapters: a block is \<^verbatim>\<open>null\<close> exactly when its adapter returned \<^verbatim>\<open>null\<close>, whatever
  the others returned, and the price mapping is empty when both price adapters returned the
  empty object. When all six adapters come back empty or \<^verbatim>\<open>null\<close>, the snapshot has an empty
  price mapping and \<^verbatim>\<open>null\<close> in each of the four domain blocks. Whatever snapshot the cycle
  returns, this one included, \<^verbatim>\<open>getCachedSnapshot\<close> stores it and answers every call from it
  while its age is below the time-to-live, and the handler of \<^verbatim>\<open>GET /snapshot\<close> answers an
  admitted request with it (status 200), the hash attachment leaving a snapshot without
  prices as it is.
\<close>

theorem degraded_snapshot_is_cached_and_served:
  "(\<exists>cg dl fg tv sc gs.
      fetchCoinGecko assets (coingecko_api c) = Inr cg \<and>
      fetchDeFiLlama assets (defillama_api c) = Inr dl \<and>
      fetchFearGreed (feargreed_api c) = Inr fg \<and>
      fetchTVL (tvl_api c) = Inr tv \<and>
      fetchStablecoins (stablecoins_api c) = Inr sc \<and>
      fetchGas (etherscan_api c) = Inr gs \<and>
      getFullSnapshot assets c =
        Inr \<lparr> s_timestamp = clock_stamp c div 1000, s_iso = ISO (clock_iso c),
              s_oracle = ''MoltOracle v1.0.0'', s_verification = ''cross-sourced'',
              s_prices = collect_prices cg dl assets,
              fearGreed = fg, tvl = tv, stablecoins = sc, gas = gs \<rparr>) \<and>
   (\<forall>snap. getFullSnapshot assets c = Inr snap \<longrightarrow>
      (fetchCoinGecko assets (coingecko_api c) = Inr Map.empty \<and>
       fetchDeFiLlama assets (defillama_api c) = Inr Map.empty \<longrightarrow> s_prices snap = []) \<and>
      ((fearGreed snap = None) = (fetchFearGreed (feargreed_api c) = Inr None)) \<and>
      ((tvl snap = None) = (fetchTVL (tvl_api c) = Inr None)) \<and>
      ((stablecoins snap = None) = (fetchStablecoins (stablecoins_api c) = Inr None)) \<and>
      ((gas snap = None) = (fetchGas (etherscan_api c) = Inr None))) \<and>
   (\<exists>snap. getFullSnapshot assets c = Inr snap \<and>
           s_timestamp snap = clock_stamp c div 1000 \<and> s_iso snap = ISO (clock_iso c)) \<and>
   (fetchCoinGecko assets (coingecko_api c) = Inr Map.empty \<and>
    fetchDeFiLlama assets (defillama_api c) = Inr Map.empty \<and>
    fetchFearGreed (feargreed_api c) = Inr None \<and> fetchTVL (tvl_api c) = Inr None \<and>
    fetchStablecoins (stablecoins_api c) = Inr None \<and> fetchGas (etherscan_api c) = Inr None \<longrightarrow>
      getFullSnapshot assets c =
        Inr \<lparr> s_timestamp = clock_stamp c div 1000, s_iso = ISO (clock_iso c),
              s_oracle = ''MoltOracle v1.0.0'', s_verification = ''cross-sourced'',
              s_prices = [], fearGreed = None, tvl = None, stablecoins = None, gas = None \<rparr>) \<and>
   (\<forall>snap. (cache st = None \<or> CACHE_TTL \<le> now_check w - cacheTime st) \<and>
           getFullSnapshot default_assets (fanout w) = Inr snap \<longrightarrow>
      (\<exists>st'. getCachedSnapshot st w = (Inr (heap_next st), st') \<and>
             cache st' = Some (heap_next st) \<and> heap st' (heap_next st) = Some snap \<and>
             (\<forall>w'. now_check w' - now_stored w < CACHE_TTL \<longrightarrow>
                   getCachedSnapshot st' w' = (Inr (heap_next st), st'))) \<and>
      (fst (checkRateLimit (RATE_LIMIT pf) st ip (now_limit w)) \<longrightarrow>
         fst (get_snapshot pf st ip w) = Snapshot200 (attach_hashes pf snap))) \<and>
   (\<forall>snap. s_prices snap = [] \<longrightarrow> attach_hashes pf snap = snap)"
proof (intro conjI allI impI)
  show "\<exists>cg dl fg tv sc gs.
      fetchCoinGecko assets (coingecko_api c) = Inr cg \<and>
      fetchDeFiLlama assets (defillama_api c) = Inr dl \<and>
      fetchFearGreed (feargreed_api c) = Inr fg \<and>
      fetchTVL (tvl_api c) = Inr tv \<and>
      fetchStablecoins (stablecoins_api c) = Inr sc \<and>
      fetchGas (etherscan_api c) = Inr gs \<and>
      getFullSnapshot assets c =
        Inr \<lparr> s_timestamp = clock_stamp c div 1000, s_iso = ISO (clock_iso c),
              s_oracle = ''MoltOracle v1.0.0'', s_verification = ''cross-sourced'',
              s_prices = collect_prices cg dl assets,
              fearGreed = fg, tvl = tv, stablecoins = sc, gas = gs \<rparr>"
    by (rule getFullSnapshot_blocks)
next
  fix snap
  assume "getFullSnapshot assets c = Inr snap"
    and "fetchCoinGecko assets (coingecko_api c) = Inr Map.empty \<and>
         fetchDeFiLlama assets (defillama_api c) = Inr Map.empty"
  then show "s_prices snap = []"
    using getFullSnapshot_blocks [of assets c] by (auto simp: collect_prices_nothing)
next
  fix snap
  assume "getFullSnapshot assets c = Inr snap"
  then show "(fearGreed snap = None) = (fetchFearGreed (feargreed_api c) = Inr None)"
    using getFullSnapshot_blocks [of assets c] by auto
next
  fix snap
  assume "getFullSnapshot assets c = Inr snap"
  then show "(tvl snap = None) = (fetchTVL (tvl_api c) = Inr None)"
    using getFullSnapshot_blocks [of assets c] by auto
next
  fix snap
  assume "getFullSnapshot assets c = Inr snap"
  then show "(stablecoins snap = None) = (fetchStablecoins (stablecoins_api c) = Inr None)"
    using getFullSnapshot_blocks [of assets c] by auto
next
  fix snap
  assume "getFullSnapshot assets c = Inr snap"
  then show "(gas snap = None) = (fetchGas (etherscan_api c) = Inr None)"
    using getFullSnapshot_blocks [of assets c] by auto
next
  show "\<exists>snap. getFullSnapshot assets c = Inr snap \<and>
           s_timestamp snap = clock_stamp c div 1000 \<and> s_iso snap = ISO (clock_iso c)"
    using getFullSnapshot_blocks [of assets c] by auto
next
  assume "fetchCoinGecko assets (coingecko_api c) = Inr Map.empty \<and>
    fetchDeFiLlama assets (defillama_api c) = Inr Map.empty \<and>
    fetchFearGreed (feargreed_api c) = Inr None \<and> fetchTVL (tvl_api c) = Inr None \<and>
    fetchStablecoins (stablecoins_api c) = Inr None \<and> fetchGas (etherscan_api c) = Inr None"
  then show "getFullSnapshot assets c =
        Inr \<lparr> s_timestamp = clock_stamp c div 1000, s_iso = ISO (clock_iso c),
              s_oracle = ''MoltOracle v1.0.0'', s_verification = ''cross-sourced'',
              s_prices = [], fearGreed = None, tvl = None, stablecoins = None, gas = None \<rparr>"
    by (simp add: getFullSnapshot_def Promise_all6_def collect_prices_nothing)
next
  fix snap
  assume a: "(cache st = None \<or> CACHE_TTL \<le> now_check w - cacheTime st) \<and>
           getFullSnapshot default_assets (fanout w) = Inr snap"
  let ?st' = "st\<lparr> heap := (heap st)(heap_next st \<mapsto> snap), heap_next := Suc (heap_next st),
                cache := Some (heap_next st), cacheTime := now_stored w \<rparr>"
  have m: "getCachedSnapshot st w = (Inr (heap_next st), ?st')"
    using a by (intro getCachedSnapshot_miss) auto
  have h: "\<forall>w'. now_check w' - now_stored w < CACHE_TTL \<longrightarrow>
                   getCachedSnapshot ?st' w' = (Inr (heap_next st), ?st')"
    by (simp add: getCachedSnapshot_hit)
  from m h show "\<exists>st'. getCachedSnapshot st w = (Inr (heap_next st), st') \<and>
             cache st' = Some (heap_next st) \<and> heap st' (heap_next st) = Some snap \<and>
             (\<forall>w'. now_check w' - now_stored w < CACHE_TTL \<longrightarrow>
                   getCachedSnapshot st' w' = (Inr (heap_next st), st'))"
    by simp
next
  fix snap
  assume a: "(cache st = None \<or> CACHE_TTL \<le> now_check w - cacheTime st) \<and>
           getFullSnapshot default_assets (fanout w) = Inr snap"
    and b: "fst (checkRateLimit (RATE_LIMIT pf) st ip (now_limit w))"
  obtain st1 where c: "checkRateLimit (RATE_LIMIT pf) st ip (now_limit w) = (True, st1)"
    using b by (cases "checkRateLimit (RATE_LIMIT pf) st ip (now_limit w)") auto
  note f = checkRateLimit_frame [OF c]
  let ?st2 = "st1\<lparr> heap := (heap st1)(heap_next st1 \<mapsto> snap), heap_next := Suc (heap_next st1),
                cache := Some (heap_next st1), cacheTime := now_stored w \<rparr>"
  have m: "getCachedSnapshot st1 w = (Inr (heap_next st1), ?st2)"
    using a f by (intro getCachedSnapshot_miss) auto
  have "heap ?st2 (heap_next st1) = Some snap" by simp
  from get_snapshot_admitted [OF c m this]
  show "fst (get_snapshot pf st ip w) = Snapshot200 (attach_hashes pf snap)"
    by simp
next
  fix snap :: snapshot
  assume "s_prices snap = []"
  then show "attach_hashes pf snap = snap" by (rule attach_hashes_nothing)
qed

text \<open>
  The first request falls into the outage: it is answered with the empty snapshot, and so is
  the cache thirty seconds later. On the day of \<open>troubled\<close> on which, in addition, the
  request for the chains fails, the block of the chains is \<^verbatim>\<open>null\<close> and the other blocks and
  the price of bitcoin are there.
\<close>

theorem degraded_snapshot_is_cached_and_served_witness:
  "getFullSnapshot default_assets outage =
     Inr \<lparr> s_timestamp = 1700000000, s_iso = ISO 1700000000124,
           s_oracle = ''MoltOracle v1.0.0'', s_verification = ''cross-sourced'',
           s_prices = [], fearGreed = None, tvl = None, stablecoins = None, gas = None \<rparr> \<and>
   fst (get_snapshot toy_platform init_server ''10.0.0.1'' dark_request) =
     Snapshot200 \<lparr> s_timestamp = 1700000000, s_iso = ISO 1700000000124,
           s_oracle = ''MoltOracle v1.0.0'', s_verification = ''cross-sourced'',
           s_prices = [], fearGreed = None, tvl = None, stablecoins = None, gas = None \<rparr> \<and>
   (\<exists>st'. getCachedSnapshot init_server dark_request = (Inr 0, st') \<and>
          cache st' = Some 0 \<and>
          heap st' 0 = Some \<lparr> s_timestamp = 1700000000, s_iso = ISO 1700000000124,
                              s_oracle = ''MoltOracle v1.0.0'', s_verification = ''cross-sourced'',
                              s_prices = [], fearGreed = None, tvl = None, stablecoins = None,
                              gas = None \<rparr> \<and>
          now_check later_request - now_stored dark_request < CACHE_TTL \<and>
          getCachedSnapshot st' later_request = (Inr 0, st')) \<and>
   fetchTVL (tvl_api (troubled\<lparr> tvl_api := NoResponse \<rparr>)) = Inr None \<and>
   fetchFearGreed (feargreed_api (troubled\<lparr> tvl_api := NoResponse \<rparr>)) \<noteq> Inr None \<and>
   (\<exists>snap. getFullSnapshot default_assets (troubled\<lparr> tvl_api := NoResponse \<rparr>) = Inr snap \<and>
           tvl snap = None \<and> fearGreed snap \<noteq> None \<and> stablecoins snap \<noteq> None \<and>
           gas snap \<noteq> None \<and> map_of (s_prices snap) ''BTC'' \<noteq> None \<and>
           s_timestamp snap = 1700000000 \<and> s_iso snap = ISO 1700000000124)"
proof -
  let ?d = "\<lparr> s_timestamp = 1700000000, s_iso = ISO 1700000000124,
              s_oracle = ''MoltOracle v1.0.0'', s_verification = ''cross-sourced'',
              s_prices = [], fearGreed = None, tvl = None, stablecoins = None, gas = None \<rparr>"
  let ?c = "troubled\<lparr> tvl_api := NoResponse \<rparr>"
  note T = degraded_snapshot_is_cached_and_served
             [of default_assets outage init_server dark_request toy_platform "''10.0.0.1''"]
  note U = degraded_snapshot_is_cached_and_served
             [of default_assets ?c init_server dark_request toy_platform "''10.0.0.1''"]
  have deg: "fetchCoinGecko default_assets (coingecko_api outage) = Inr Map.empty \<and>
    fetchDeFiLlama default_assets (defillama_api outage) = Inr Map.empty \<and>
    fetchFearGreed (feargreed_api outage) = Inr None \<and> fetchTVL (tvl_api outage) = Inr None \<and>
    fetchStablecoins (stablecoins_api outage) = Inr None \<and>
    fetchGas (etherscan_api outage) = Inr None"
    by (simp add: fetch_failure_degrades outage_def fetch_def)
  have 1: "getFullSnapshot default_assets outage = Inr ?d"
    using T [THEN conjunct2, THEN conjunct2, THEN conjunct2, THEN conjunct1] deg
    by (simp add: outage_def)
  have f: "fanout dark_request = outage" "now_limit dark_request = 1700000000000"
    "now_stored dark_request = 1700000000200"
    by (simp_all add: dark_request_def first_request_def)
  have miss: "(cache init_server = None \<or>
               CACHE_TTL \<le> now_check dark_request - cacheTime init_server) \<and>
              getFullSnapshot default_assets (fanout dark_request) = Inr ?d"
    using 1 by (simp add: init_server_def f)
  have adm: "fst (checkRateLimit (RATE_LIMIT toy_platform) init_server ''10.0.0.1''
                    (now_limit dark_request))"
    by (simp add: RATE_LIMIT_default toy_platform_def admitted_first)
  note C = T [THEN conjunct2, THEN conjunct2, THEN conjunct2, THEN conjunct2, THEN conjunct1,
              THEN spec, of ?d, THEN mp, OF miss]
  have e: "attach_hashes toy_platform ?d = ?d"
    using T [THEN conjunct2, THEN conjunct2, THEN conjunct2, THEN conjunct2, THEN conjunct2,
             THEN spec, of ?d] by simp
  have 2: "fst (get_snapshot toy_platform init_server ''10.0.0.1'' dark_request) = Snapshot200 ?d"
    using C [THEN conjunct2] adm e by simp
  have fresh: "now_check later_request - now_stored dark_request < CACHE_TTL"
    by (simp add: later_request_def f CACHE_TTL_def)
  from C [THEN conjunct1] fresh
  have 3: "\<exists>st'. getCachedSnapshot init_server dark_request = (Inr 0, st') \<and>
          cache st' = Some 0 \<and> heap st' 0 = Some ?d \<and>
          now_check later_request - now_stored dark_request < CACHE_TTL \<and>
          getCachedSnapshot st' later_request = (Inr 0, st')"
    by (auto simp: init_server_def)
  have 4: "fetchTVL (tvl_api ?c) = Inr None"
    by (simp add: fetch_failure_degrades fetch_def)
  have 5: "fetchFearGreed (feargreed_api ?c) \<noteq> Inr None"
    "fetchStablecoins (stablecoins_api ?c) \<noteq> Inr None"
    "fetchGas (etherscan_api ?c) \<noteq> Inr None"
    by code_simp+
  obtain cg dl fg tv sc gs where b:
    "fetchCoinGecko default_assets (coingecko_api ?c) = Inr cg"
    "fetchDeFiLlama default_assets (defillama_api ?c) = Inr dl"
    "getFullSnapshot default_assets ?c =
        Inr \<lparr> s_timestamp = clock_stamp ?c div 1000, s_iso = ISO (clock_iso ?c),
              s_oracle = ''MoltOracle v1.0.0'', s_verification = ''cross-sourced'',
              s_prices = collect_prices cg dl default_assets,
              fearGreed = fg, tvl = tv, stablecoins = sc, gas = gs \<rparr>"
    using U [THEN conjunct1] by blast
  let ?s = "\<lparr> s_timestamp = clock_stamp ?c div 1000, s_iso = ISO (clock_iso ?c),
              s_oracle = ''MoltOracle v1.0.0'', s_verification = ''cross-sourced'',
              s_prices = collect_prices cg dl default_assets,
              fearGreed = fg, tvl = tv, stablecoins = sc, gas = gs \<rparr>"
  note V = U [THEN conjunct2, THEN conjunct1, THEN spec, of ?s, THEN mp, OF b(3)]
  have 6: "tvl ?s = None" "fearGreed ?s \<noteq> None" "stablecoins ?s \<noteq> None" "gas ?s \<noteq> None"
    using V 4 5 by blast+
  have "case getFullSnapshot default_assets ?c of
          Inr x \<Rightarrow> map_of (s_prices x) ''BTC'' \<noteq> None | Inl e \<Rightarrow> False"
    by code_simp
  then have 7: "map_of (s_prices ?s) ''BTC'' \<noteq> None"
    unfolding b(3) by simp
  have 8: "s_timestamp ?s = 1700000000" "s_iso ?s = ISO 1700000000124"
    by (simp_all add: troubled_def bitcoin_only_def outage_def)
  have 9: "\<exists>snap. getFullSnapshot default_assets ?c = Inr snap \<and>
           tvl snap = None \<and> fearGreed snap \<noteq> None \<and> stablecoins snap \<noteq> None \<and>
           gas snap \<noteq> None \<and> map_of (s_prices snap) ''BTC'' \<noteq> None \<and>
           s_timestamp snap = 1700000000 \<and> s_iso snap = ISO 1700000000124"
    using b(3) 6 7 8 by blast
  from 1 2 3 4 5(1) 9 show ?thesis by (intro conjI)
qed

lemma get_price_never_fails:
  assumes "heap_ok st"
  shows "fst (get_price pf st ip param w) \<noteq> Status500 e"
proof (cases "checkRateLimit (RATE_LIMIT pf) st ip (now_limit w)")
  case (Pair b st1)
  show ?thesis
  proof (cases b)
    case False
    with Pair show ?thesis by (simp add: get_price_def)
  next
    case True
    have "heap_ok st1"
      using assms checkRateLimit_frame [OF Pair] by (simp add: heap_ok_def split: option.splits)
    then obtain r st2 data where g: "getCachedSnapshot st1 w = (Inr r, st2)"
      and h: "heap st2 r = Some data"
      using getCachedSnapshot_valid by blast
    with Pair True show ?thesis
      by (simp add: get_price_def Let_def split: option.split)
  qed
qed

lemma get_price_absent:
  assumes "checkRateLimit (RATE_LIMIT pf) st ip (now_limit w) = (True, st1)"
    and "getCachedSnapshot st1 w = (Inr r, st2)" and "heap st2 r = Some data"
    and "map_of (s_prices data) (toUpperCase param) = None"
  shows "get_price pf st ip param w =
           (Status404 (''Asset '' @ toUpperCase param @ '' not tracked''), st2)"
  using assms by (simp add: get_price_def Let_def)

text \<open>
  Claim C8. Without a quote from either adapter \<^verbatim>\<open>crossVerify\<close> returns \<^verbatim>\<open>null\<close>; a record it
  does return counts one or two sources, never none. A ticker for which neither adapter has
  a quote is missing from the price mapping of the snapshot. The handler of
  \<^verbatim>\<open>GET /price/:asset\<close> looks up the upper-cased parameter; it never answers with a 500, and it
  answers an admitted request with a 404 when the ticker is missing from the snapshot it
  serves, be that a fresh one, for which neither adapter had a quote, or the cached one.
\<close>

theorem untracked_asset_is_not_found:
  "(coinGecko a = None \<and> deFiLlama a = None \<longrightarrow> crossVerify coinGecko deFiLlama a = None) \<and>
   (\<forall>r. crossVerify coinGecko deFiLlama a = Some r \<longrightarrow> sources r = 1 \<or> sources r = 2) \<and>
   (\<forall>cg dl snap.
      fetchCoinGecko assets (coingecko_api c) = Inr cg \<and>
      fetchDeFiLlama assets (defillama_api c) = Inr dl \<and> cg a = None \<and> dl a = None \<and>
      getFullSnapshot assets c = Inr snap \<longrightarrow>
        map_of (s_prices snap) a = None) \<and>
   (heap_ok st \<longrightarrow> (\<forall>e. fst (get_price pf st ip param w) \<noteq> Status500 e)) \<and>
   (\<forall>cg dl.
      fst (checkRateLimit (RATE_LIMIT pf) st ip (now_limit w)) \<and>
      (cache st = None \<or> CACHE_TTL \<le> now_check w - cacheTime st) \<and>
      fetchCoinGecko default_assets (coingecko_api (fanout w)) = Inr cg \<and>
      fetchDeFiLlama default_assets (defillama_api (fanout w)) = Inr dl \<and>
      cg (toUpperCase param) = None \<and> dl (toUpperCase param) = None \<longrightarrow>
        fst (get_price pf st ip param w) =
          Status404 (''Asset '' @ toUpperCase param @ '' not tracked'')) \<and>
   (\<forall>r data.
      fst (checkRateLimit (RATE_LIMIT pf) st ip (now_limit w)) \<and>
      cache st = Some r \<and> now_check w - cacheTime st < CACHE_TTL \<and> heap st r = Some data \<and>
      map_of (s_prices data) (toUpperCase param) = None \<longrightarrow>
        fst (get_price pf st ip param w) =
          Status404 (''Asset '' @ toUpperCase param @ '' not tracked''))"
proof (intro conjI allI impI)
  assume "coinGecko a = None \<and> deFiLlama a = None"
  then show "crossVerify coinGecko deFiLlama a = None"
    by (simp add: crossVerify_def)
next
  fix r assume "crossVerify coinGecko deFiLlama a = Some r"
  then show "sources r = 1 \<or> sources r = 2" by (rule crossVerify_sources)
next
  fix cg dl snap
  assume h: "fetchCoinGecko assets (coingecko_api c) = Inr cg \<and>
      fetchDeFiLlama assets (defillama_api c) = Inr dl \<and> cg a = None \<and> dl a = None \<and>
      getFullSnapshot assets c = Inr snap"
  then have "s_prices snap = collect_prices cg dl assets"
    using getFullSnapshot_blocks [of assets c] by auto
  moreover have "crossVerify cg dl a = None"
    using h by (simp add: crossVerify_def)
  ultimately show "map_of (s_prices snap) a = None"
    by (simp add: map_of_collect_prices)
next
  fix e assume "heap_ok st"
  then show "fst (get_price pf st ip param w) \<noteq> Status500 e"
    by (rule get_price_never_fails)
next
  fix cg dl
  assume h: "fst (checkRateLimit (RATE_LIMIT pf) st ip (now_limit w)) \<and>
      (cache st = None \<or> CACHE_TTL \<le> now_check w - cacheTime st) \<and>
      fetchCoinGecko default_assets (coingecko_api (fanout w)) = Inr cg \<and>
      fetchDeFiLlama default_assets (defillama_api (fanout w)) = Inr dl \<and>
      cg (toUpperCase param) = None \<and> dl (toUpperCase param) = None"
  obtain st1 where c: "checkRateLimit (RATE_LIMIT pf) st ip (now_limit w) = (True, st1)"
    using h by (cases "checkRateLimit (RATE_LIMIT pf) st ip (now_limit w)") auto
  note f = checkRateLimit_frame [OF c]
  obtain snap where s: "getFullSnapshot default_assets (fanout w) = Inr snap"
    using getFullSnapshot_fulfils by blast
  have p: "s_prices snap = collect_prices cg dl default_assets"
    using getFullSnapshot_blocks [of default_assets "fanout w"] h s by auto
  have n: "map_of (s_prices snap) (toUpperCase param) = None"
    using h by (simp add: p map_of_collect_prices crossVerify_def)
  let ?st2 = "st1\<lparr> heap := (heap st1)(heap_next st1 \<mapsto> snap), heap_next := Suc (heap_next st1),
                cache := Some (heap_next st1), cacheTime := now_stored w \<rparr>"
  have m: "getCachedSnapshot st1 w = (Inr (heap_next st1), ?st2)"
    using h f s by (intro getCachedSnapshot_miss) auto
  have "heap ?st2 (heap_next st1) = Some snap" by simp
  from get_price_absent [OF c m this n]
  show "fst (get_price pf st ip param w) =
          Status404 (''Asset '' @ toUpperCase param @ '' not tracked'')"
    by simp
next
  fix r data
  assume h: "fst (checkRateLimit (RATE_LIMIT pf) st ip (now_limit w)) \<and>
      cache st = Some r \<and> now_check w - cacheTime st < CACHE_TTL \<and> heap st r = Some data \<and>
      map_of (s_prices data) (toUpperCase param) = None"
  obtain st1 where c: "checkRateLimit (RATE_LIMIT pf) st ip (now_limit w) = (True, st1)"
    using h by (cases "checkRateLimit (RATE_LIMIT pf) st ip (now_limit w)") auto
  note f = checkRateLimit_frame [OF c]
  have m: "getCachedSnapshot st1 w = (Inr r, st1)"
    using h f by (intro getCachedSnapshot_hit) auto
  have d: "heap st1 r = Some data" using h f by simp
  from get_price_absent [OF c m d] h
  show "fst (get_price pf st ip param w) =
          Status404 (''Asset '' @ toUpperCase param @ '' not tracked'')"
    by simp
qed

text \<open>
  The request for \<^verbatim>\<open>eth\<close> while only bitcoin is quoted: a 404 from the fresh snapshot and a 404
  from the cache.
\<close>

theorem untracked_asset_is_not_found_witness:
  "crossVerify Map.empty Map.empty ''UNKNOWN'' = None \<and>
   (\<exists>r. crossVerify
           [''ADA'' \<mapsto> \<lparr> cg_price = 45 / 100, cg_change24h = Some 1,
                          cg_marketCap = Some 15000000000, cg_source = ''coingecko'' \<rparr>]
           Map.empty ''ADA'' = Some r \<and> sources r = 1) \<and>
   (\<exists>snap. getFullSnapshot default_assets bitcoin_only = Inr snap \<and>
           map_of (s_prices snap) ''ETH'' = None) \<and>
   heap_ok init_server \<and>
   fst (get_price toy_platform init_server ''10.0.0.1'' ''eth'' first_request) \<noteq>
     Status500 TypeError \<and>
   toUpperCase ''eth'' = ''ETH'' \<and>
   fst (get_price toy_platform init_server ''10.0.0.1'' ''eth'' first_request) =
     Status404 ''Asset ETH not tracked'' \<and>
   fst (get_price toy_platform
          (snd (get_price toy_platform init_server ''10.0.0.1'' ''eth'' first_request))
          ''10.0.0.2'' ''eth'' later_request) =
     Status404 ''Asset ETH not tracked''"
proof -
  let ?ada = "[''ADA'' \<mapsto> \<lparr> cg_price = 45 / 100, cg_change24h = Some 1,
                              cg_marketCap = Some 15000000000, cg_source = ''coingecko'' \<rparr>]"
  let ?ip = "''10.0.0.1''"
  let ?st1 = "snd (get_price toy_platform init_server ?ip ''eth'' first_request)"
  note A = untracked_asset_is_not_found
             [of Map.empty "''UNKNOWN''" Map.empty default_assets bitcoin_only init_server
                 toy_platform ?ip "''eth''" first_request]
  note B = untracked_asset_is_not_found
             [of ?ada "''ADA''" Map.empty default_assets bitcoin_only ?st1
                 toy_platform "''10.0.0.2''" "''eth''" later_request]
  have 1: "crossVerify Map.empty Map.empty ''UNKNOWN'' = None"
    using A [THEN conjunct1] by simp
  obtain r where r: "crossVerify ?ada Map.empty ''ADA'' = Some r"
    by (simp add: crossVerify_def)
  have "sources r = 1 \<or> sources r = 2"
    using B [THEN conjunct2, THEN conjunct1] r by blast
  moreover have "sources r \<noteq> 2"
    using r by (auto simp: crossVerify_def single_source_def)
  ultimately have 2: "\<exists>r. crossVerify ?ada Map.empty ''ADA'' = Some r \<and> sources r = 1"
    using r by auto
  have up: "toUpperCase ''eth'' = ''ETH''" by code_simp
  have adm: "fst (checkRateLimit (RATE_LIMIT toy_platform) init_server ?ip (now_limit first_request))"
    by code_simp
  have miss: "cache init_server = None \<or>
              CACHE_TTL \<le> now_check first_request - cacheTime init_server"
    by (simp add: init_server_def)
  obtain cg where cg: "fetchCoinGecko default_assets (coingecko_api (fanout first_request)) = Inr cg"
    using fetchCoinGecko_fulfils by blast
  obtain dl where dl: "fetchDeFiLlama default_assets (defillama_api (fanout first_request)) = Inr dl"
    using fetchDeFiLlama_fulfils by blast
  have "case fetchCoinGecko default_assets (coingecko_api (fanout first_request)) of
          Inr m \<Rightarrow> m ''ETH'' = None | Inl e \<Rightarrow> False"
    by code_simp
  then have cgn: "cg (toUpperCase ''eth'') = None" by (simp add: cg up)
  have "case fetchDeFiLlama default_assets (defillama_api (fanout first_request)) of
          Inr m \<Rightarrow> m ''ETH'' = None | Inl e \<Rightarrow> False"
    by code_simp
  then have dln: "dl (toUpperCase ''eth'') = None" by (simp add: dl up)
  have f: "fanout first_request = bitcoin_only" by (simp add: first_request_def)
  obtain snap where snap: "getFullSnapshot default_assets bitcoin_only = Inr snap"
    using getFullSnapshot_fulfils by blast
  have 3: "\<exists>snap. getFullSnapshot default_assets bitcoin_only = Inr snap \<and>
           map_of (s_prices snap) ''ETH'' = None"
    using untracked_asset_is_not_found
        [of Map.empty "''ETH''" Map.empty default_assets bitcoin_only init_server
            toy_platform ?ip "''eth''" first_request,
         THEN conjunct2, THEN conjunct2, THEN conjunct1, THEN spec, of cg, THEN spec, of dl,
         THEN spec, of snap]
      cg dl cgn dln snap f up
    by auto
  have ok: "heap_ok init_server" by (simp add: heap_ok_def init_server_def)
  have 4: "fst (get_price toy_platform init_server ?ip ''eth'' first_request) =
             Status404 ''Asset ETH not tracked''"
    using A [THEN conjunct2, THEN conjunct2, THEN conjunct2, THEN conjunct2, THEN conjunct1,
             THEN spec, of cg, THEN spec, of dl] adm miss cg dl cgn dln up
    by simp
  have adm2: "fst (checkRateLimit (RATE_LIMIT toy_platform) ?st1 ''10.0.0.2''
                     (now_limit later_request))"
    by code_simp
  have c2: "cache ?st1 = Some 0" by code_simp
  have t2: "cacheTime ?st1 = 1700000000200" by code_simp
  have "case heap ?st1 0 of Some d \<Rightarrow> map_of (s_prices d) ''ETH'' = None | None \<Rightarrow> False"
    by code_simp
  then obtain d where d: "heap ?st1 0 = Some d" "map_of (s_prices d) ''ETH'' = None"
    by (auto split: option.splits)
  have fresh: "now_check later_request - cacheTime ?st1 < CACHE_TTL"
    unfolding t2 by (simp add: later_request_def CACHE_TTL_def)
  have 5: "fst (get_price toy_platform ?st1 ''10.0.0.2'' ''eth'' later_request) =
             Status404 ''Asset ETH not tracked''"
    using B [THEN conjunct2, THEN conjunct2, THEN conjunct2, THEN conjunct2, THEN conjunct2,
             THEN spec, of 0, THEN spec, of d] adm2 c2 fresh d up
    by simp
  have 6: "fst (get_price toy_platform init_server ?ip ''eth'' first_request) \<noteq>
             Status500 TypeError"
    using A [THEN conjunct2, THEN conjunct2, THEN conjunct2, THEN conjunct1] ok by blast
  from 1 2 3 ok 6 up 4 5 show ?thesis by blast
qed

lemma get_snapshot_200D:
  assumes "get_snapshot pf st ip w = (Snapshot200 snap, st')"
  shows "\<exists>data. snap = attach_hashes pf data"
  using assms
  by (auto simp: get_snapshot_def split: prod.splits bool.splits sum.splits option.splits)

lemma attach_hashes_entries:
  assumes "(k, info) \<in> set (s_prices (attach_hashes pf data))"
  shows "dataHash info =
           Some (computeDataHash pf k (price info) (sourceNames info)
                   (s_timestamp (attach_hashes pf data)))"
  using assms by (auto simp: attach_hashes_def)

lemma get_price_200D:
  assumes "get_price pf st ip param w = (Price200 i, st')"
  obtains st1 r st2 data info where
    "checkRateLimit (RATE_LIMIT pf) st ip (now_limit w) = (True, st1)"
    "getCachedSnapshot st1 w = (Inr r, st2)" "heap st2 r = Some data"
    "map_of (s_prices data) (toUpperCase param) = Some info"
    "i = info\<lparr> dataHash := Some (computeDataHash pf (toUpperCase param) (price info)
                                    (sourceNames info) (s_timestamp data)),
                asset := Some (toUpperCase param),
                timestamp := Some (s_timestamp data),
                iso := Some (s_iso data) \<rparr>"
    "st' = st2\<lparr> heap := (heap st2)(r \<mapsto>
              data\<lparr> s_prices := AList.update (toUpperCase param) i (s_prices data) \<rparr>) \<rparr>"
  using assms
  by (auto simp: get_price_def Let_def
           split: prod.splits bool.splits sum.splits option.splits)

lemma is_Price200:
  "(case resp of Price200 i \<Rightarrow> True | _ \<Rightarrow> False) \<Longrightarrow> \<exists>i. resp = Price200 i"
  by (cases resp) simp_all

text \<open>
  Claim C3. The data hash is \<^verbatim>\<open>0x\<close> followed by the digest of the serialised ticker, price,
  source list and timestamp, and of nothing else: it reads neither the cache nor the rate
  limiter. Every hash in a response of \<^verbatim>\<open>GET /snapshot\<close> or \<^verbatim>\<open>GET /price/:asset\<close> is that
  function of the ticker, the price and the source list of its record and of the timestamp
  of the snapshot served, so two responses that agree on these four values carry the same
  hash; and a second request for the same asset answered from the same cached snapshot
  returns the very same record.
\<close>

theorem dataHash_function_of_four_inputs:
  "take 2 (computeDataHash pf a p srcs ts) = ''0x'' \<and>
   computeDataHash pf a p srcs ts = ''0x'' @ sha256_hex pf (payload pf a p srcs ts) \<and>
   (\<forall>snap st' k info.
      get_snapshot pf st ip w = (Snapshot200 snap, st') \<and> (k, info) \<in> set (s_prices snap) \<longrightarrow>
        dataHash info =
          Some (computeDataHash pf k (price info) (sourceNames info) (s_timestamp snap))) \<and>
   (\<forall>info st'.
      get_price pf st ip param w = (Price200 info, st') \<longrightarrow>
        (\<exists>ts'. timestamp info = Some ts' \<and> asset info = Some (toUpperCase param) \<and>
               dataHash info =
                 Some (computeDataHash pf (toUpperCase param) (price info) (sourceNames info) ts'))) \<and>
   (\<forall>i1 st1 ip' w' i2 st2.
      get_price pf st ip param w = (Price200 i1, st1) \<and>
      now_check w' - cacheTime st1 < CACHE_TTL \<and>
      get_price pf st1 ip' param w' = (Price200 i2, st2) \<longrightarrow>
        i2 = i1)"
proof (intro conjI allI impI)
  show "take 2 (computeDataHash pf a p srcs ts) = ''0x''"
    by (simp add: computeDataHash_def)
next
  show "computeDataHash pf a p srcs ts = ''0x'' @ sha256_hex pf (payload pf a p srcs ts)"
    by (simp add: computeDataHash_def)
next
  fix snap st' k info
  assume h: "get_snapshot pf st ip w = (Snapshot200 snap, st') \<and> (k, info) \<in> set (s_prices snap)"
  then obtain data where "snap = attach_hashes pf data"
    using get_snapshot_200D by blast
  with h show "dataHash info =
          Some (computeDataHash pf k (price info) (sourceNames info) (s_timestamp snap))"
    using attach_hashes_entries by blast
next
  fix info st'
  assume "get_price pf st ip param w = (Price200 info, st')"
  then show "\<exists>ts'. timestamp info = Some ts' \<and> asset info = Some (toUpperCase param) \<and>
               dataHash info =
                 Some (computeDataHash pf (toUpperCase param) (price info) (sourceNames info) ts')"
    by (rule get_price_200D) simp
next
  fix i1 st1 ip' w' i2 st2
  assume h: "get_price pf st ip param w = (Price200 i1, st1) \<and>
      now_check w' - cacheTime st1 < CACHE_TTL \<and>
      get_price pf st1 ip' param w' = (Price200 i2, st2)"
  let ?a = "toUpperCase param"
  from h obtain sa r sb data info where
    1: "getCachedSnapshot sa w = (Inr r, sb)" and 2: "heap sb r = Some data"
    and 3: "i1 = info\<lparr> dataHash := Some (computeDataHash pf ?a (price info)
                                    (sourceNames info) (s_timestamp data)),
                asset := Some ?a, timestamp := Some (s_timestamp data),
                iso := Some (s_iso data) \<rparr>"
    and 4: "st1 = sb\<lparr> heap := (heap sb)(r \<mapsto>
              data\<lparr> s_prices := AList.update ?a i1 (s_prices data) \<rparr>) \<rparr>"
    by (auto elim: get_price_200D)
  let ?data' = "data\<lparr> s_prices := AList.update ?a i1 (s_prices data) \<rparr>"
  have c1: "cache st1 = Some r"
    using getCachedSnapshot_ref [OF 1] 4 by simp
  have h1: "heap st1 r = Some ?data'"
    using 4 by simp
  from h obtain sc r' sd data2 info2 where
    5: "checkRateLimit (RATE_LIMIT pf) st1 ip' (now_limit w') = (True, sc)"
    and 6: "getCachedSnapshot sc w' = (Inr r', sd)" and 7: "heap sd r' = Some data2"
    and 8: "map_of (s_prices data2) ?a = Some info2"
    and 9: "i2 = info2\<lparr> dataHash := Some (computeDataHash pf ?a (price info2)
                                    (sourceNames info2) (s_timestamp data2)),
                asset := Some ?a, timestamp := Some (s_timestamp data2),
                iso := Some (s_iso data2) \<rparr>"
    by (auto elim: get_price_200D)
  note f = checkRateLimit_frame [OF 5]
  have "getCachedSnapshot sc w' = (Inr r, sc)"
    using h c1 f by (intro getCachedSnapshot_hit) auto
  with 6 have "r' = r" "sd = sc" by simp_all
  with 7 f h1 have d2: "data2 = ?data'" by simp
  with 8 have "info2 = i1" by (simp add: update_conv')
  with 9 d2 3 show "i2 = i1" by simp
qed

text \<open>
  Two requests for \<^verbatim>\<open>btc\<close>, thirty seconds apart, answered from one snapshot; and the hash
  of bitcoin in a response of \<^verbatim>\<open>GET /snapshot\<close>.
\<close>

theorem dataHash_function_of_four_inputs_witness:
  "(\<exists>i1 st1 i2 st2.
     get_price toy_platform init_server ''10.0.0.1'' ''btc'' first_request = (Price200 i1, st1) \<and>
     now_check later_request - cacheTime st1 < CACHE_TTL \<and>
     get_price toy_platform st1 ''10.0.0.2'' ''btc'' later_request = (Price200 i2, st2) \<and>
     i2 = i1 \<and> price i1 = 67000 \<and> sourceNames i1 = [''coingecko''] \<and>
     asset i1 = Some ''BTC'' \<and> timestamp i1 = Some 1700000000 \<and>
     dataHash i1 = Some (computeDataHash toy_platform ''BTC'' 67000 [''coingecko''] 1700000000)) \<and>
   (\<exists>snap st' info.
      get_snapshot toy_platform init_server ''10.0.0.1'' first_request = (Snapshot200 snap, st') \<and>
      (''BTC'', info) \<in> set (s_prices snap) \<and>
      dataHash info = Some (computeDataHash toy_platform ''BTC'' 67000 [''coingecko''] 1700000000))"
proof -
  have prices: "\<exists>i1 st1 i2 st2.
     get_price toy_platform init_server ''10.0.0.1'' ''btc'' first_request = (Price200 i1, st1) \<and>
     now_check later_request - cacheTime st1 < CACHE_TTL \<and>
     get_price toy_platform st1 ''10.0.0.2'' ''btc'' later_request = (Price200 i2, st2) \<and>
     i2 = i1 \<and> price i1 = 67000 \<and> sourceNames i1 = [''coingecko''] \<and>
     asset i1 = Some ''BTC'' \<and> timestamp i1 = Some 1700000000 \<and>
     dataHash i1 = Some (computeDataHash toy_platform ''BTC'' 67000 [''coingecko''] 1700000000)"
  proof -
    let ?r1 = "get_price toy_platform init_server ''10.0.0.1'' ''btc'' first_request"
    let ?r2 = "get_price toy_platform (snd ?r1) ''10.0.0.2'' ''btc'' later_request"
    have "case fst ?r1 of Price200 i \<Rightarrow> True | _ \<Rightarrow> False" by code_simp
    then obtain i1 where "fst ?r1 = Price200 i1"
      using is_Price200 by blast
    then obtain st1 where 1: "?r1 = (Price200 i1, st1)"
      by (cases ?r1) simp
    have st1: "snd ?r1 = st1" by (simp only: 1 snd_conv)
    have "case fst ?r2 of Price200 i \<Rightarrow> True | _ \<Rightarrow> False" by code_simp
    then obtain i2 where "fst ?r2 = Price200 i2"
      using is_Price200 by blast
    then obtain st2 where 2: "get_price toy_platform st1 ''10.0.0.2'' ''btc'' later_request =
                                (Price200 i2, st2)"
      unfolding st1 by (cases "get_price toy_platform st1 ''10.0.0.2'' ''btc'' later_request") simp
    have "cacheTime (snd ?r1) = 1700000000200" by code_simp
    then have 3: "now_check later_request - cacheTime st1 < CACHE_TTL"
      unfolding st1 by (simp add: later_request_def CACHE_TTL_def)
    have "(case fst ?r1 of
             Price200 i \<Rightarrow> price i = 67000 \<and> sourceNames i = [''coingecko''] \<and>
                           timestamp i = Some 1700000000
           | _ \<Rightarrow> False)"
      by code_simp
    then have 4: "price i1 = 67000" "sourceNames i1 = [''coingecko'']"
      "timestamp i1 = Some 1700000000"
      by (simp_all only: 1 fst_conv response.case)
    have 5: "toUpperCase ''btc'' = ''BTC''" by code_simp
    note T = dataHash_function_of_four_inputs
               [of toy_platform "''BTC''" 67000 "[''coingecko'']" 1700000000 init_server
                   "''10.0.0.1''" first_request "''btc''"]
    note T4 = T [THEN conjunct2, THEN conjunct2, THEN conjunct2, THEN conjunct1,
                 THEN spec, THEN spec, THEN mp, OF 1]
    note T5 = T [THEN conjunct2, THEN conjunct2, THEN conjunct2, THEN conjunct2, THEN spec,
                 of i1, THEN spec, of st1, THEN spec, of "''10.0.0.2''", THEN spec,
                 of later_request, THEN spec, of i2, THEN spec, of st2, THEN mp]
    have same: "i2 = i1"
      by (rule T5) (intro conjI 1 2 3)
    from T4 4 5
    have 6: "asset i1 = Some ''BTC''"
      "dataHash i1 = Some (computeDataHash toy_platform ''BTC'' 67000 [''coingecko''] 1700000000)"
      by auto
    show ?thesis
      by (intro exI [of _ i1] exI [of _ st1] exI [of _ i2] exI [of _ st2] conjI 1 2 3 same 4 6)
  qed
  have snapshot: "\<exists>snap st' info.
      get_snapshot toy_platform init_server ''10.0.0.1'' first_request = (Snapshot200 snap, st') \<and>
      (''BTC'', info) \<in> set (s_prices snap) \<and>
      dataHash info = Some (computeDataHash toy_platform ''BTC'' 67000 [''coingecko''] 1700000000)"
  proof -
    let ?r0 = "get_snapshot toy_platform init_server ''10.0.0.1'' first_request"
    have ev: "case fst ?r0 of
            Snapshot200 s \<Rightarrow>
              s_prices s \<noteq> [] \<and> fst (hd (s_prices s)) = ''BTC'' \<and>
              price (snd (hd (s_prices s))) = 67000 \<and>
              sourceNames (snd (hd (s_prices s))) = [''coingecko''] \<and>
              s_timestamp s = 1700000000
          | _ \<Rightarrow> False"
      by code_simp
    obtain snap where s: "fst ?r0 = Snapshot200 snap"
      using ev by (cases "fst ?r0") simp_all
    define info where "info = snd (hd (s_prices snap))"
    have ev': "s_prices snap \<noteq> [] \<and> fst (hd (s_prices snap)) = ''BTC'' \<and>
              price (snd (hd (s_prices snap))) = 67000 \<and>
              sourceNames (snd (hd (s_prices snap))) = [''coingecko''] \<and>
              s_timestamp snap = 1700000000"
      using ev by (simp add: s)
    then have i: "hd (s_prices snap) = (''BTC'', info)"
      "price info = 67000" "sourceNames info = [''coingecko'']"
      by (simp_all add: info_def prod_eq_iff)
    from s obtain st' where 0: "?r0 = (Snapshot200 snap, st')"
      by (cases ?r0) simp
    have mem: "(''BTC'', info) \<in> set (s_prices snap)"
      using hd_in_set [of "s_prices snap"] ev' i(1) by simp
    note T = dataHash_function_of_four_inputs
               [of toy_platform "''BTC''" 67000 "[''coingecko'']" 1700000000 init_server
                   "''10.0.0.1''" first_request "''btc''"]
    note T3 = T [THEN conjunct2, THEN conjunct2, THEN conjunct1, THEN spec, of snap, THEN spec,
                 of st', THEN spec, of "''BTC''", THEN spec, of info, THEN mp]
    have "dataHash info =
            Some (computeDataHash toy_platform ''BTC'' (price info) (sourceNames info)
                    (s_timestamp snap))"
      by (rule T3) (intro conjI 0 mem)
    with i(2,3) ev' have "dataHash info =
            Some (computeDataHash toy_platform ''BTC'' 67000 [''coingecko''] 1700000000)"
      by simp
    with 0 mem show ?thesis by blast
  qed
  from prices snapshot show ?thesis by (rule conjI)
qed

text \<open>
  Claim C6 says that attaching the hashes leaves the cached snapshot as other readers see it,
  so that a response of \<^verbatim>\<open>GET /prices\<close> never carries a \<^verbatim>\<open>dataHash\<close>. The handlers write
  through the reference they are given, that is, into the cached object: \<^verbatim>\<open>GET /prices\<close>
  answers without hashes on a fresh cache, with the hash of bitcoin after a
  \<^verbatim>\<open>GET /snapshot\<close>, and with the hash, ticker, timestamp and ISO string after a
  \<^verbatim>\<open>GET /price/btc\<close>.
\<close>

theorem prices_response_shows_attached_hashes:
  "fst (get_prices toy_platform init_server ''10.0.0.2'' first_request) =
     Prices200 1700000000 (ISO 1700000000124)
       [(''BTC'', \<lparr> price = 67000, prices = None, sources = 1, sourceNames = [''coingecko''],
                    confidence = 60, divergenceBps = Fin 0, change24h = None, marketCap = None,
                    warning = None, dataHash = None, asset = None, timestamp = None,
                    iso = None \<rparr>)] \<and>
   fst (get_prices toy_platform
          (snd (get_snapshot toy_platform init_server ''10.0.0.1'' first_request))
          ''10.0.0.2'' later_request) =
     Prices200 1700000000 (ISO 1700000000124)
       [(''BTC'', \<lparr> price = 67000, prices = None, sources = 1, sourceNames = [''coingecko''],
                    confidence = 60, divergenceBps = Fin 0, change24h = None, marketCap = None,
                    warning = None,
                    dataHash = Some (computeDataHash toy_platform ''BTC'' 67000 [''coingecko'']
                                       1700000000),
                    asset = None, timestamp = None, iso = None \<rparr>)] \<and>
   fst (get_prices toy_platform
          (snd (get_price toy_platform init_server ''10.0.0.1'' ''btc'' first_request))
          ''10.0.0.2'' later_request) =
     Prices200 1700000000 (ISO 1700000000124)
       [(''BTC'', \<lparr> price = 67000, prices = None, sources = 1, sourceNames = [''coingecko''],
                    confidence = 60, divergenceBps = Fin 0, change24h = None, marketCap = None,
                    warning = None,
                    dataHash = Some (computeDataHash toy_platform ''BTC'' 67000 [''coingecko'']
                                       1700000000),
                    asset = Some ''BTC'', timestamp = Some 1700000000,
                    iso = Some (ISO 1700000000124) \<rparr>)]"
  by code_simp

end
